theory Spec2Isabelle
  imports Complex_Main "HOL-Library.Sublist"
begin

section \<open>Values of the platform\<close>

text \<open>
  The service is TypeScript on Node. Its numbers are IEEE doubles: the model keeps the
  three special values apart and takes a finite value as the rational it denotes, which
  is all that \<open>!x\<close>, \<open>Number.isNaN\<close> and \<open><\<close> look at. Strings are lists of
  code units below 256. The parsed content of the remote file is an arbitrary JSON
  value: the source casts it to \<open>Review[]\<close> without looking at it.
\<close>

datatype jsnum = NaN | NegInf | Fin rat | PosInf

datatype json =
    JNull
  | JBool bool
  | JNum rat
  | JStr string
  | JArr "json list"
  | JObj "(string \<times> json) list"

text \<open>\<open>!x\<close> on a number: zero and NaN are falsy.\<close>

fun falsy_num :: "jsnum \<Rightarrow> bool" where
  "falsy_num NaN = True"
| "falsy_num (Fin q) = (q = 0)"
| "falsy_num NegInf = False"
| "falsy_num PosInf = False"

text \<open>\<open>a < b\<close> on numbers: false as soon as one side is NaN.\<close>

fun num_less :: "jsnum \<Rightarrow> jsnum \<Rightarrow> bool" where
  "num_less NaN _ = False"
| "num_less _ NaN = False"
| "num_less NegInf NegInf = False"
| "num_less NegInf _ = True"
| "num_less (Fin a) (Fin b) = (a < b)"
| "num_less (Fin a) PosInf = True"
| "num_less (Fin a) NegInf = False"
| "num_less PosInf _ = False"

text \<open>Truthiness of an optional string (\<open>undefined\<close> and \<open>""\<close> are falsy).\<close>

fun truthy_str :: "string option \<Rightarrow> bool" where
  "truthy_str None = False"
| "truthy_str (Some s) = (s \<noteq> [])"

text \<open>Truthiness of an optional JSON value (a field of a request body).\<close>

fun truthy :: "json option \<Rightarrow> bool" where
  "truthy None = False"
| "truthy (Some JNull) = False"
| "truthy (Some (JBool b)) = b"
| "truthy (Some (JNum q)) = (q \<noteq> 0)"
| "truthy (Some (JStr s)) = (s \<noteq> [])"
| "truthy (Some (JArr _)) = True"
| "truthy (Some (JObj _)) = True"

text \<open>\<open>a ?? b\<close>: the left operand unless it is \<open>undefined\<close>.\<close>

fun nullish :: "'a option \<Rightarrow> 'a option \<Rightarrow> 'a option" where
  "nullish (Some a) _ = Some a"
| "nullish None b = b"

text \<open>\<open>v ?? d\<close> on a field of a JSON object: \<open>undefined\<close> and \<open>null\<close> give \<open>d\<close>.\<close>

fun nullish_json :: "json option \<Rightarrow> json \<Rightarrow> json" where
  "nullish_json None d = d"
| "nullish_json (Some JNull) d = d"
| "nullish_json (Some v) d = v"

text \<open>\<open>String.prototype.trim\<close>, on the white space and line terminators below 256.\<close>

definition is_ws :: "char \<Rightarrow> bool" where
  "is_ws c = (c \<in> set [CHR 0x09, CHR 0x0A, CHR 0x0B, CHR 0x0C, CHR 0x0D, CHR 0x20, CHR 0xA0])"

definition trim :: "string \<Rightarrow> string" where
  "trim s = rev (dropWhile is_ws (rev (dropWhile is_ws s)))"

text \<open>\<open>s.substring(a, b)\<close> for \<open>a \<le> b\<close>.\<close>

definition substring :: "nat \<Rightarrow> nat \<Rightarrow> string \<Rightarrow> string" where
  "substring a b s = take (b - a) (drop a s)"

text \<open>A number in a template string (an HTTP status).\<close>

definition digit :: "nat \<Rightarrow> char" where
  "digit d = ''0123456789'' ! d"

fun string_of_nat :: "nat \<Rightarrow> string" where
  "string_of_nat n =
     (if n < 10 then [digit n] else string_of_nat (n div 10) @ [digit (n mod 10)])"

declare string_of_nat.simps [simp del]

text \<open>
  The built-in functions the service calls. They are parameters of the model: every
  theorem below holds whatever they compute.
  \<^item> \<open>Number\<close>: \<open>Number(s)\<close> on a string;
  \<^item> \<open>JSON_parse\<close>: \<open>JSON.parse(s)\<close>, \<open>Inl\<close> the message of the SyntaxError it throws;
  \<^item> \<open>JSON_stringify\<close>: \<open>JSON.stringify(v, null, 2)\<close>;
  \<^item> \<open>Buffer_decode\<close>: \<open>Buffer.from(v, encoding).toString("utf-8")\<close> on whatever the two
    arguments are at run time (\<open>None\<close> is \<open>undefined\<close>): \<open>Inl\<close> the message of the
    TypeError that \<open>Buffer.from\<close> throws (on an encoding it does not know, on a first
    argument that is no string, buffer or array), \<open>Inr\<close> the text otherwise;
  \<^item> \<open>Buffer_base64\<close>: \<open>Buffer.from(s).toString("base64")\<close>.
\<close>

record builtins =
  Number :: "string \<Rightarrow> jsnum"
  JSON_parse :: "string \<Rightarrow> string + json"
  JSON_stringify :: "json \<Rightarrow> string"
  Buffer_decode :: "json option \<Rightarrow> json \<Rightarrow> string + string"
  Buffer_base64 :: "string \<Rightarrow> string"

text \<open>\<open>process.env\<close>.\<close>

type_synonym env = "string \<Rightarrow> string option"

section \<open>services/githubReviews.ts\<close>

subsection \<open>Errors\<close>

text \<open>
  The two error classes of the module, and \<open>Error\<close> for every other throw (the plain
  \<open>Error\<close>s of the module and the TypeErrors of the runtime), with its message.
\<close>

datatype error = GitHubConfigError string | GitHubConflictError string | Error string

fun is_conflict :: "error \<Rightarrow> bool" where
  "is_conflict (GitHubConflictError _) = True"
| "is_conflict _ = False"

fun is_config :: "error \<Rightarrow> bool" where
  "is_config (GitHubConfigError _) = True"
| "is_config _ = False"

subsection \<open>getMaxRetries\<close>

definition DEFAULT_MAX_RETRIES :: jsnum where
  "DEFAULT_MAX_RETRIES = Fin 5"

definition getMaxRetries :: "builtins \<Rightarrow> env \<Rightarrow> jsnum" where
  "getMaxRetries P env =
     (let raw = nullish (env ''GITHUB_MAX_RETRIES'')
                  (nullish (env ''GITHUB_RETRY_LIMIT'') (env ''MAX_RETRIES''));
          parsed = (if truthy_str raw then map_option (Number P) raw else None)
      in case parsed of
           None \<Rightarrow> DEFAULT_MAX_RETRIES
         | Some p \<Rightarrow>
             if falsy_num p \<or> p = NaN \<or> num_less p (Fin 1) then DEFAULT_MAX_RETRIES
             else p)"

subsection \<open>getConfig\<close>

record config =
  token :: string
  owner :: string
  repo :: string
  filePath :: string
  branch :: string
  commitMessage :: string
  committerName :: "string option"
  committerEmail :: "string option"

text \<open>\<open>s.replace(/^\//, "")\<close>: one leading slash is dropped.\<close>

fun strip_slash :: "string \<Rightarrow> string" where
  "strip_slash [] = []"
| "strip_slash (c # cs) = (if c = CHR ''/'' then cs else c # cs)"

definition or_default :: "'a option \<Rightarrow> 'a \<Rightarrow> 'a" where
  "or_default v d = (case v of None \<Rightarrow> d | Some x \<Rightarrow> x)"

definition getConfig :: "env \<Rightarrow> error + config" where
  "getConfig env =
     (let filePath = strip_slash (or_default (env ''GITHUB_FILE_PATH'') ''reviews.json'');
          branch = or_default (env ''GITHUB_BRANCH'') ''main'';
          commitMessage = or_default (env ''GITHUB_COMMIT_MESSAGE'') ''chore: update reviews'';
          committerName = env ''GIT_COMMITTER_NAME'';
          committerEmail = env ''GIT_COMMITTER_EMAIL''
      in if \<not> truthy_str (env ''GITHUB_TOKEN'') then
           Inl (GitHubConfigError ''Missing GITHUB_TOKEN environment variable'')
         else if \<not> truthy_str (env ''GITHUB_OWNER'') then
           Inl (GitHubConfigError ''Missing GITHUB_OWNER environment variable'')
         else if \<not> truthy_str (env ''GITHUB_REPO'') then
           Inl (GitHubConfigError ''Missing GITHUB_REPO environment variable'')
         else
           Inr \<lparr>token = or_default (env ''GITHUB_TOKEN'') [],
                owner = or_default (env ''GITHUB_OWNER'') [],
                repo = or_default (env ''GITHUB_REPO'') [],
                filePath = filePath,
                branch = branch,
                commitMessage = commitMessage,
                committerName = committerName,
                committerEmail = committerEmail\<rparr>)"

definition buildHeaders :: "string \<Rightarrow> (string \<times> string) list" where
  "buildHeaders tok =
     [(''Authorization'', ''Bearer '' @ tok),
      (''Accept'', ''application/vnd.github+json''),
      (''User-Agent'', ''reviews-service'')]"

subsection \<open>The HTTP exchange\<close>

text \<open>
  \<open>fetch\<close> of undici either rejects (no response) or resolves to a response. A response
  has a status, its body as text, and its body as \<open>response.json()\<close> reads it at the type
  the source casts it to (\<open>None\<close> when the body is not JSON and \<open>json()\<close> rejects).
\<close>

record 'p response =
  status :: nat
  body_text :: string
  json :: "'p option"

datatype 'p fetch_result = Rejected string | Resolved "'p response"

definition ok :: "'p response \<Rightarrow> bool" where
  "ok r = (200 \<le> status r \<and> status r \<le> 299)"

text \<open>
  \<open>GitHubContentResponse\<close>: the body of a successful GET. The cast to this type checks
  nothing, and \<open>Buffer.from\<close> looks at \<open>content\<close> and \<open>encoding\<close> at run time: they are
  whatever JSON values the body has there, or absent.
\<close>

record GitHubContentResponse =
  content :: "json option"
  encoding :: "json option"
  blob_sha :: string

text \<open>
  \<open>GitHubUpdateResponse\<close>: the body of a successful PUT, as the two reads
  \<open>payload.content?.sha\<close> and \<open>payload.commit?.sha\<close> see it.
\<close>

record GitHubUpdateResponse =
  content_sha :: "string option"
  commit_sha :: "string option"

text \<open>The object the PUT sends as its JSON body.\<close>

record put_body =
  body_message :: string
  body_content :: string
  body_branch :: string
  body_sha :: "string option"
  body_committer :: "(string \<times> string) option"

text \<open>
  The remote side is a parameter: a function from a request and the state of the world
  to a response and the next state of the world. Whatever other clients do to the
  remote file between two requests of this client is part of that function.
\<close>

record 'w network =
  net_get :: "string \<Rightarrow> (string \<times> string) list \<Rightarrow> 'w
                \<Rightarrow> GitHubContentResponse fetch_result \<times> 'w"
  net_put :: "string \<Rightarrow> (string \<times> string) list \<Rightarrow> put_body \<Rightarrow> 'w
                \<Rightarrow> GitHubUpdateResponse fetch_result \<times> 'w"

text \<open>Every call of \<open>fetch\<close> is recorded with its answer, in order.\<close>

datatype exchange =
    GetX string "(string \<times> string) list" "GitHubContentResponse fetch_result"
  | PutX string "(string \<times> string) list" put_body "GitHubUpdateResponse fetch_result"

record 'w sys =
  world :: 'w
  calls :: "exchange list"

text \<open>The state before the first request.\<close>

definition start :: "'w \<Rightarrow> 'w sys" where
  "start w = \<lparr>world = w, calls = []\<rparr>"

definition http_get ::
  "'w network \<Rightarrow> string \<Rightarrow> (string \<times> string) list \<Rightarrow> 'w sys
     \<Rightarrow> GitHubContentResponse fetch_result \<times> 'w sys" where
  "http_get net url hdrs s =
     (case net_get net url hdrs (world s) of
        (r, w) \<Rightarrow> (r, \<lparr>world = w, calls = calls s @ [GetX url hdrs r]\<rparr>))"

definition http_put ::
  "'w network \<Rightarrow> string \<Rightarrow> (string \<times> string) list \<Rightarrow> put_body \<Rightarrow> 'w sys
     \<Rightarrow> GitHubUpdateResponse fetch_result \<times> 'w sys" where
  "http_put net url hdrs b s =
     (case net_put net url hdrs b (world s) of
        (r, w) \<Rightarrow> (r, \<lparr>world = w, calls = calls s @ [PutX url hdrs b r]\<rparr>))"

subsection \<open>fetchReviewsFromGitHub\<close>

record ReviewsWithSha =
  reviews :: json
  sha :: "string option"

text \<open>What the function makes of a response: everything after \<open>await fetch(...)\<close>.\<close>

definition read_response ::
  "builtins \<Rightarrow> GitHubContentResponse fetch_result \<Rightarrow> error + ReviewsWithSha" where
  "read_response P r =
     (case r of
        Rejected m \<Rightarrow> Inl (Error m)
      | Resolved response \<Rightarrow>
          if status response = 404 then Inr \<lparr>reviews = JArr [], sha = None\<rparr>
          else if \<not> ok response then
            Inl (Error (''Failed to fetch reviews from GitHub: ''
                   @ string_of_nat (status response) @ '' '' @ body_text response))
          else
            (case json response of
               None \<Rightarrow> Inl (Error ''Unexpected token in JSON'')
             | Some payload \<Rightarrow>
                 (case Buffer_decode P (content payload)
                         (nullish_json (encoding payload) (JStr ''base64'')) of
                    Inl m \<Rightarrow> Inl (Error m)
                  | Inr decoded \<Rightarrow>
                      let rawContent = trim decoded
                      in if rawContent = [] then
                           Inr \<lparr>reviews = JArr [], sha = Some (blob_sha payload)\<rparr>
                         else
                           (case JSON_parse P rawContent of
                              Inr parsed \<Rightarrow>
                                Inr \<lparr>reviews = parsed, sha = Some (blob_sha payload)\<rparr>
                            | Inl m \<Rightarrow>
                                Inl (Error (''reviews.json in GitHub repository contains invalid JSON: ''
                                       @ m))))))"

definition fetchReviewsFromGitHub ::
  "builtins \<Rightarrow> 'w network \<Rightarrow> env \<Rightarrow> 'w sys \<Rightarrow> (error + ReviewsWithSha) \<times> 'w sys" where
  "fetchReviewsFromGitHub P net env s =
     (case getConfig env of
        Inl e \<Rightarrow> (Inl e, s)
      | Inr config \<Rightarrow>
          let url = ''https://api.github.com/repos/'' @ owner config @ ''/'' @ repo config
                      @ ''/contents/'' @ filePath config @ ''?ref='' @ branch config
          in case http_get net url (buildHeaders (token config)) s of
               (r, s') \<Rightarrow> (read_response P r, s'))"

subsection \<open>persistReviewsToGitHub\<close>

definition serialize :: "builtins \<Rightarrow> json list \<Rightarrow> string" where
  "serialize P rs = Buffer_base64 P (JSON_stringify P (JArr rs))"

definition write_body :: "builtins \<Rightarrow> config \<Rightarrow> json list \<Rightarrow> string option \<Rightarrow> put_body" where
  "write_body P config rs sha_opt =
     \<lparr>body_message = commitMessage config,
      body_content = serialize P rs,
      body_branch = branch config,
      body_sha = (if truthy_str sha_opt then sha_opt else None),
      body_committer =
        (if truthy_str (committerName config) \<and> truthy_str (committerEmail config)
         then Some (or_default (committerName config) [], or_default (committerEmail config) [])
         else None)\<rparr>"

text \<open>What the function makes of a response: everything after \<open>await fetch(...)\<close>.\<close>

definition write_response :: "GitHubUpdateResponse fetch_result \<Rightarrow> error + string option" where
  "write_response r =
     (case r of
        Rejected m \<Rightarrow> Inl (Error m)
      | Resolved response \<Rightarrow>
          if status response = 409 then
            Inl (GitHubConflictError ''GitHub file changed during update'')
          else if \<not> ok response then
            Inl (Error (''Failed to persist reviews to GitHub: ''
                   @ string_of_nat (status response) @ '' '' @ body_text response))
          else
            (case json response of
               None \<Rightarrow> Inl (Error ''Unexpected token in JSON'')
             | Some payload \<Rightarrow> Inr (nullish (content_sha payload) (commit_sha payload))))"

definition persistReviewsToGitHub ::
  "builtins \<Rightarrow> 'w network \<Rightarrow> env \<Rightarrow> json list \<Rightarrow> string option \<Rightarrow> 'w sys
     \<Rightarrow> (error + string option) \<times> 'w sys" where
  "persistReviewsToGitHub P net env rs sha_opt s =
     (case getConfig env of
        Inl e \<Rightarrow> (Inl e, s)
      | Inr config \<Rightarrow>
          let url = ''https://api.github.com/repos/'' @ owner config @ ''/'' @ repo config
                      @ ''/contents/'' @ filePath config
          in case http_put net url (buildHeaders (token config))
                    (write_body P config rs sha_opt) s of
               (r, s') \<Rightarrow> (write_response r, s'))"

subsection \<open>mutateReviewsWithRetry\<close>

text \<open>
  \<open>[...reviews]\<close>: an array gives its elements, a string its characters, and any other
  JSON value is not iterable (a TypeError).
\<close>

fun spread :: "json \<Rightarrow> error + json list" where
  "spread (JArr xs) = Inr xs"
| "spread (JStr s) = Inr (map (\<lambda>c. JStr [c]) s)"
| "spread _ = Inl (Error ''reviews is not iterable'')"

text \<open>
  The loop. \<open>retries\<close> is a number, and the loop goes on while \<open>attempt < retries\<close>:
  with \<open>Infinity\<close> and a remote side that answers every write with a conflict it never
  returns, which is the value \<open>None\<close>.
\<close>

definition attempt_less :: "nat \<Rightarrow> jsnum \<Rightarrow> bool" where
  "attempt_less attempt retries = num_less (Fin (of_nat attempt)) retries"

definition exhausted :: "error option \<Rightarrow> error" where
  "exhausted lastError =
     (case lastError of
        Some e \<Rightarrow> e
      | None \<Rightarrow> Error ''Exceeded retry attempts when updating reviews'')"

partial_function (option) mutate_loop ::
  "builtins \<Rightarrow> 'w network \<Rightarrow> env \<Rightarrow> (json list \<Rightarrow> json list \<times> 'r) \<Rightarrow> jsnum
     \<Rightarrow> nat \<Rightarrow> error option \<Rightarrow> 'w sys \<Rightarrow> ((error + 'r) \<times> 'w sys) option" where
  "mutate_loop P net env mutator retries attempt lastError s =
     (if attempt_less attempt retries then
        (case fetchReviewsFromGitHub P net env s of
           (Inl e, s1) \<Rightarrow> Some (Inl e, s1)
         | (Inr r, s1) \<Rightarrow>
             (case spread (reviews r) of
                Inl e \<Rightarrow> Some (Inl e, s1)
              | Inr snapshot \<Rightarrow>
                  (case mutator snapshot of
                     (next, result) \<Rightarrow>
                       (case persistReviewsToGitHub P net env next (sha r) s1 of
                          (Inr _, s2) \<Rightarrow> Some (Inr result, s2)
                        | (Inl e, s2) \<Rightarrow>
                            if is_conflict e \<and> attempt_less (attempt + 1) retries
                            then mutate_loop P net env mutator retries (attempt + 1) (Some e) s2
                            else Some (Inl e, s2)))))
      else Some (Inl (exhausted lastError), s))"

definition mutateReviewsWithRetry ::
  "builtins \<Rightarrow> 'w network \<Rightarrow> env \<Rightarrow> (json list \<Rightarrow> json list \<times> 'r) \<Rightarrow> jsnum
     \<Rightarrow> 'w sys \<Rightarrow> ((error + 'r) \<times> 'w sys) option" where
  "mutateReviewsWithRetry P net env mutator retries s =
     mutate_loop P net env mutator retries 0 None s"

section \<open>routes/reviews.ts\<close>

text \<open>
  The two transforms the routes pass to \<open>mutateReviewsWithRetry\<close>. The one of
  \<open>addReview\<close> reads the clock and the random generator: the three strings it gets from
  them (\<open>Date.now().toString()\<close>, \<open>Math.random().toString(36)\<close>,
  \<open>new Date().toISOString()\<close>) are arguments here. \<open>avatar\<close> and \<open>stars\<close> are fields
  of the request body, any JSON value or absent; \<open>text\<close> is a string once the handler
  has checked it.
\<close>

record clock =
  now :: string
  random36 :: string
  isoNow :: string

definition placeholder_avatar :: string where
  "placeholder_avatar =
     ''https://api.builder.io/api/v1/image/assets/TEMP/50539832474100cc93c13a30455d91939b986e3b?width=124''"

text \<open>\<open>a || d\<close> on an optional JSON value.\<close>

definition or_else :: "json option \<Rightarrow> json \<Rightarrow> json" where
  "or_else a d = (if truthy a then or_default a d else d)"

definition newReview :: "clock \<Rightarrow> string \<Rightarrow> json option \<Rightarrow> json option \<Rightarrow> json" where
  "newReview clk txt avatar stars =
     JObj [(''id'', JStr (now clk @ substring 2 11 (random36 clk))),
           (''text'', JStr (trim txt)),
           (''createdAt'', JStr (isoNow clk)),
           (''avatar'', or_else avatar (JStr placeholder_avatar)),
           (''stars'', or_else stars (JNum 5))]"

definition addReview_mutator ::
  "clock \<Rightarrow> string \<Rightarrow> json option \<Rightarrow> json option \<Rightarrow> json list \<Rightarrow> json list \<times> json" where
  "addReview_mutator clk txt avatar stars current =
     (current @ [newReview clk txt avatar stars], newReview clk txt avatar stars)"

definition clearReviews_mutator :: "json list \<Rightarrow> json list \<times> unit" where
  "clearReviews_mutator current = ([], ())"

section \<open>The remote store\<close>

text \<open>
  Modelled from the spec: the remote store is GitHub's contents API, which is not part
  of the repository. The store holds at most one document, its content and its version
  token. A read answers 404 when there is no document and does not change the store. A
  write is accepted iff its token is the store's current one, or it has none and the
  store has no document; an accepted write replaces the content and gives the document
  a token no caller has seen; a refused write is answered 409 and changes nothing.
\<close>

record store =
  document :: "(string \<times> string) option"
  version :: nat

definition empty_store :: store where
  "empty_store = \<lparr>document = None, version = 0\<rparr>"

definition token_of :: "nat \<Rightarrow> string" where
  "token_of n = replicate (Suc n) (CHR ''v'')"

definition accepts :: "store \<Rightarrow> put_body \<Rightarrow> bool" where
  "accepts w b = (body_sha b = map_option snd (document w))"

text \<open>The four answers of the store.\<close>

definition not_found :: "GitHubContentResponse fetch_result" where
  "not_found = Resolved \<lparr>status = 404, body_text = ''Not Found'', json = None\<rparr>"

definition found :: "string \<Rightarrow> string \<Rightarrow> GitHubContentResponse fetch_result" where
  "found c t =
     Resolved \<lparr>status = 200, body_text = [],
               json = Some \<lparr>content = Some (JStr c), encoding = Some (JStr ''base64''),
                             blob_sha = t\<rparr>\<rparr>"

definition refused :: "GitHubUpdateResponse fetch_result" where
  "refused = Resolved \<lparr>status = 409, body_text = ''Conflict'', json = None\<rparr>"

definition accepted :: "nat \<Rightarrow> string \<Rightarrow> GitHubUpdateResponse fetch_result" where
  "accepted st t =
     Resolved \<lparr>status = st, body_text = [],
               json = Some \<lparr>content_sha = Some t, commit_sha = None\<rparr>\<rparr>"

definition store_get ::
  "string \<Rightarrow> (string \<times> string) list \<Rightarrow> store \<Rightarrow> GitHubContentResponse fetch_result \<times> store" where
  "store_get url hdrs w =
     (case document w of
        None \<Rightarrow> (not_found, w)
      | Some (c, t) \<Rightarrow> (found c t, w))"

definition store_put ::
  "string \<Rightarrow> (string \<times> string) list \<Rightarrow> put_body \<Rightarrow> store
     \<Rightarrow> GitHubUpdateResponse fetch_result \<times> store" where
  "store_put url hdrs b w =
     (if accepts w b then
        (accepted (if document w = None then 201 else 200) (token_of (version w)),
         \<lparr>document = Some (body_content b, token_of (version w)), version = Suc (version w)\<rparr>)
      else (refused, w))"

definition store_net :: "store network" where
  "store_net = \<lparr>net_get = store_get, net_put = store_put\<rparr>"

text \<open>
  The store with rival writers: after each read of this client, the next rival (if one
  is left) gets its own content accepted, so that the token this client has just read is
  stale when it writes.
\<close>

definition rival_write :: "string \<Rightarrow> store \<Rightarrow> store" where
  "rival_write c w = \<lparr>document = Some (c, token_of (version w)), version = Suc (version w)\<rparr>"

definition contended_get ::
  "string \<Rightarrow> (string \<times> string) list \<Rightarrow> store \<times> string list
     \<Rightarrow> GitHubContentResponse fetch_result \<times> store \<times> string list" where
  "contended_get url hdrs wr =
     (case wr of
        (w, []) \<Rightarrow> (fst (store_get url hdrs w), w, [])
      | (w, c # cs) \<Rightarrow> (fst (store_get url hdrs w), rival_write c w, cs))"

definition contended_put ::
  "string \<Rightarrow> (string \<times> string) list \<Rightarrow> put_body \<Rightarrow> store \<times> string list
     \<Rightarrow> GitHubUpdateResponse fetch_result \<times> store \<times> string list" where
  "contended_put url hdrs b wr =
     (case wr of (w, cs) \<Rightarrow> (case store_put url hdrs b w of (r, w') \<Rightarrow> (r, w', cs)))"

definition contended_net :: "(store \<times> string list) network" where
  "contended_net = \<lparr>net_get = contended_get, net_put = contended_put\<rparr>"

text \<open>A remote side that reads as the store does and answers every write with 500.\<close>

definition broken_put ::
  "string \<Rightarrow> (string \<times> string) list \<Rightarrow> put_body \<Rightarrow> store
     \<Rightarrow> GitHubUpdateResponse fetch_result \<times> store" where
  "broken_put url hdrs b w =
     (Resolved \<lparr>status = 500, body_text = ''Server Error'', json = None\<rparr>, w)"

definition broken_net :: "store network" where
  "broken_net = \<lparr>net_get = store_get, net_put = broken_put\<rparr>"

text \<open>
  A remote side that answers every read with \<open>g\<close> and writes as the store does. GitHub
  answers a read of a file above 1 MB with an empty \<open>content\<close> and the encoding \<open>none\<close>.
\<close>

definition answering :: "GitHubContentResponse fetch_result \<Rightarrow> store network" where
  "answering g = \<lparr>net_get = (\<lambda>url hdrs w. (g, w)), net_put = store_put\<rparr>"

definition too_large :: "GitHubContentResponse fetch_result" where
  "too_large =
     Resolved \<lparr>status = 200, body_text = [],
               json = Some \<lparr>content = Some (JStr []), encoding = Some (JStr ''none''),
                             blob_sha = ''v''\<rparr>\<rparr>"

section \<open>Properties of a run\<close>

text \<open>The exchanges of a run, read as the attempts that made them.\<close>

fun is_get :: "exchange \<Rightarrow> bool" where
  "is_get (GetX _ _ _) = True"
| "is_get (PutX _ _ _ _) = False"

fun is_put :: "exchange \<Rightarrow> bool" where
  "is_put (GetX _ _ _) = False"
| "is_put (PutX _ _ _ _) = True"

text \<open>A write that the remote side answered with 409.\<close>

fun conflicted :: "exchange \<Rightarrow> bool" where
  "conflicted (PutX _ _ _ (Resolved r)) = (status r = 409)"
| "conflicted _ = False"

text \<open>
  The body \<open>b\<close> of a write is derived from the answer \<open>g\<close> to a read: \<open>g\<close> is read as a
  document, the transform is applied to its collection, and \<open>b\<close> carries the
  transform's collection and the document's token.
\<close>

definition put_derived ::
  "builtins \<Rightarrow> env \<Rightarrow> (json list \<Rightarrow> json list \<times> 'r)
     \<Rightarrow> GitHubContentResponse fetch_result \<Rightarrow> put_body \<Rightarrow> bool" where
  "put_derived P env mutator g b =
     (case (getConfig env, read_response P g) of
        (Inr config, Inr r) \<Rightarrow>
          (case spread (reviews r) of
             Inr snapshot \<Rightarrow> b = write_body P config (fst (mutator snapshot)) (sha r)
           | Inl _ \<Rightarrow> False)
      | _ \<Rightarrow> False)"

text \<open>Every write comes directly after a read, and is derived from that read's answer.\<close>

fun derived_writes ::
  "builtins \<Rightarrow> env \<Rightarrow> (json list \<Rightarrow> json list \<times> 'r) \<Rightarrow> exchange list \<Rightarrow> bool" where
  "derived_writes P env mutator [] = True"
| "derived_writes P env mutator (GetX u h g # PutX u' h' b a # rest) =
     (put_derived P env mutator g b \<and> derived_writes P env mutator rest)"
| "derived_writes P env mutator (GetX u h g # rest) = derived_writes P env mutator rest"
| "derived_writes P env mutator (PutX u h b a # rest) = False"

text \<open>
  The same, said of the answer alone and without the functions of the module. The
  document that the answer to a read holds is a collection and a version token: no
  remote object (404) is the empty collection with no token; otherwise the content,
  decoded and trimmed, is the serialized collection, the JSON text of an array, an empty
  text being the empty collection. A JSON string is the one other value the engine can
  iterate, as its characters; any other answer holds no document.
\<close>

definition held ::
  "builtins \<Rightarrow> GitHubContentResponse fetch_result \<Rightarrow> (json list \<times> string option) option" where
  "held P g =
     (case g of
        Rejected _ \<Rightarrow> None
      | Resolved x \<Rightarrow>
          if status x = 404 then Some ([], None)
          else if status x < 200 \<or> 299 < status x then None
          else
            (case json x of
               None \<Rightarrow> None
             | Some payload \<Rightarrow>
                 (case Buffer_decode P (content payload)
                         (case encoding payload of
                            None \<Rightarrow> JStr ''base64''
                          | Some JNull \<Rightarrow> JStr ''base64''
                          | Some e \<Rightarrow> e) of
                    Inl _ \<Rightarrow> None
                  | Inr decoded \<Rightarrow>
                      if trim decoded = [] then Some ([], Some (blob_sha payload))
                      else
                        (case JSON_parse P (trim decoded) of
                           Inr (JArr xs) \<Rightarrow> Some (xs, Some (blob_sha payload))
                         | Inr (JStr cs) \<Rightarrow>
                             Some (map (\<lambda>c. JStr [c]) cs, Some (blob_sha payload))
                         | _ \<Rightarrow> None))))"

text \<open>
  The body \<open>b\<close> of a write carries what the transform makes of the collection held by
  the answer \<open>g\<close>: its content is that collection, as JSON text in base64, and its token
  is the document's (an empty token is none).
\<close>

definition carries ::
  "builtins \<Rightarrow> (json list \<Rightarrow> json list \<times> 'r) \<Rightarrow> GitHubContentResponse fetch_result
     \<Rightarrow> put_body \<Rightarrow> bool" where
  "carries P mutator g b =
     (case held P g of
        None \<Rightarrow> False
      | Some (xs, t) \<Rightarrow>
          body_content b = Buffer_base64 P (JSON_stringify P (JArr (fst (mutator xs))))
          \<and> body_sha b = (if t = Some [] then None else t))"

text \<open>Every write comes directly after a read, and carries the transform of its answer.\<close>

fun writes_carry ::
  "builtins \<Rightarrow> (json list \<Rightarrow> json list \<times> 'r) \<Rightarrow> exchange list \<Rightarrow> bool" where
  "writes_carry P mutator [] = True"
| "writes_carry P mutator (GetX u h g # PutX u' h' b a # rest) =
     (carries P mutator g b \<and> writes_carry P mutator rest)"
| "writes_carry P mutator (GetX u h g # rest) = writes_carry P mutator rest"
| "writes_carry P mutator (PutX u h b a # rest) = False"

text \<open>
  A result that the call returns is the transform's result on the collection held by
  the answer to the last read, and the last exchange is the write that followed it.
\<close>

definition returns_transform ::
  "builtins \<Rightarrow> (json list \<Rightarrow> json list \<times> 'r) \<Rightarrow> exchange list \<Rightarrow> error + 'r \<Rightarrow> bool" where
  "returns_transform P mutator new res =
     (case res of
        Inl _ \<Rightarrow> True
      | Inr result \<Rightarrow>
          (case rev new of
             PutX u' h' b a # GetX u h g # _ \<Rightarrow>
               (case held P g of
                  None \<Rightarrow> False
                | Some (xs, t) \<Rightarrow> result = snd (mutator xs))
           | _ \<Rightarrow> False))"

text \<open>
  After a write answered 409, when the attempts so far (\<open>n\<close> before this list, one per
  write) are fewer than \<open>retries\<close>, the next exchange is a read.
\<close>

fun starts_with_get :: "exchange list \<Rightarrow> bool" where
  "starts_with_get [] = False"
| "starts_with_get (x # _) = is_get x"

fun rereads :: "jsnum \<Rightarrow> nat \<Rightarrow> exchange list \<Rightarrow> bool" where
  "rereads retries n [] = True"
| "rereads retries n (x # rest) =
     (let n' = (if is_put x then Suc n else n)
      in (if conflicted x \<and> attempt_less n' retries then starts_with_get rest else True)
         \<and> rereads retries n' rest)"

text \<open>Every write but the last was answered 409.\<close>

fun only_conflicts_retried :: "exchange list \<Rightarrow> bool" where
  "only_conflicts_retried [] = True"
| "only_conflicts_retried [x] = True"
| "only_conflicts_retried (x # y # rest) =
     ((if is_put x then conflicted x else True) \<and> only_conflicts_retried (y # rest))"

text \<open>When the last exchange is a write that failed, the call fails with its error.\<close>

definition failure_surfaced :: "exchange list \<Rightarrow> error + 'r \<Rightarrow> bool" where
  "failure_surfaced new res =
     (case rev new of
        PutX u h b a # _ \<Rightarrow> (case write_response a of Inl e \<Rightarrow> res = Inl e | Inr _ \<Rightarrow> True)
      | _ \<Rightarrow> True)"

text \<open>The configuration is complete.\<close>

definition config_ok :: "env \<Rightarrow> bool" where
  "config_ok env = (case getConfig env of Inr _ \<Rightarrow> True | Inl _ \<Rightarrow> False)"

text \<open>
  What a call from attempt number \<open>attempt\<close> may add to the log, \<open>new\<close>, with the result
  \<open>res\<close> it then returns.
\<close>

definition log_ok ::
  "builtins \<Rightarrow> env \<Rightarrow> (json list \<Rightarrow> json list \<times> 'r) \<Rightarrow> jsnum \<Rightarrow> nat
     \<Rightarrow> exchange list \<Rightarrow> error + 'r \<Rightarrow> bool" where
  "log_ok P env mutator retries attempt new res =
     (derived_writes P env mutator new \<and> rereads retries attempt new
      \<and> only_conflicts_retried new \<and> failure_surfaced new res
      \<and> (if attempt_less attempt retries \<and> config_ok env then starts_with_get new else True))"

section \<open>One pass of the loop\<close>

text \<open>
  The body of the loop, as a function of its own: it either ends the call (\<open>Return\<close>)
  or has met a conflict (\<open>Again\<close>), and the loop then decides on the attempts left.
\<close>

datatype 'r outcome = Return "error + 'r" | Again error

definition attempt_once ::
  "builtins \<Rightarrow> 'w network \<Rightarrow> env \<Rightarrow> (json list \<Rightarrow> json list \<times> 'r) \<Rightarrow> 'w sys
     \<Rightarrow> 'r outcome \<times> 'w sys" where
  "attempt_once P net env mutator s =
     (case fetchReviewsFromGitHub P net env s of
        (Inl e, s1) \<Rightarrow> (Return (Inl e), s1)
      | (Inr r, s1) \<Rightarrow>
          (case spread (reviews r) of
             Inl e \<Rightarrow> (Return (Inl e), s1)
           | Inr snapshot \<Rightarrow>
               (case mutator snapshot of
                  (next, result) \<Rightarrow>
                    (case persistReviewsToGitHub P net env next (sha r) s1 of
                       (Inr _, s2) \<Rightarrow> (Return (Inr result), s2)
                     | (Inl e, s2) \<Rightarrow> (if is_conflict e then Again e else Return (Inl e), s2)))))"

section \<open>The settings of getMaxRetries\<close>

text \<open>The settings \<open>getMaxRetries\<close> reads, in its order.\<close>

definition recognized :: "string list" where
  "recognized = [''GITHUB_MAX_RETRIES'', ''GITHUB_RETRY_LIMIT'', ''MAX_RETRIES'']"

text \<open>The first of them that is set, whatever its value.\<close>

definition first_set :: "env \<Rightarrow> string option" where
  "first_set env =
     (case filter (\<lambda>k. env k \<noteq> None) recognized of [] \<Rightarrow> None | k # _ \<Rightarrow> env k)"

text \<open>A number that is zero or negative.\<close>

fun not_positive :: "jsnum \<Rightarrow> bool" where
  "not_positive NaN = False"
| "not_positive NegInf = True"
| "not_positive (Fin q) = (q \<le> 0)"
| "not_positive PosInf = False"

text \<open>Follows the spec's words: the first of them that is not empty.\<close>

definition first_non_empty :: "env \<Rightarrow> string option" where
  "first_non_empty env =
     (case filter (\<lambda>k. truthy_str (env k)) recognized of [] \<Rightarrow> None | k # _ \<Rightarrow> env k)"

section \<open>Concurrent calls\<close>

text \<open>
  A call of \<open>mutateReviewsWithRetry\<close> is suspended at each \<open>await\<close> of a request, and
  the calls of other clients (of this process or of another) run meanwhile. A client is
  a call between two requests: about to read in attempt \<open>attempt + 1\<close>; about to write
  what the transform made of its last read, with the token of that read; or returned.
\<close>

datatype 'r client =
    Reading nat "error option"
  | Writing nat "json list" 'r "string option"
  | Done "error + 'r"

text \<open>One request of a client with what the loop does before the next one.\<close>

definition client_step ::
  "builtins \<Rightarrow> 'w network \<Rightarrow> env \<Rightarrow> (json list \<Rightarrow> json list \<times> 'r) \<Rightarrow> jsnum
     \<Rightarrow> 'r client \<Rightarrow> 'w sys \<Rightarrow> 'r client \<times> 'w sys" where
  "client_step P net env mutator retries p s =
     (case p of
        Reading attempt lastError \<Rightarrow>
          if attempt_less attempt retries then
            (case fetchReviewsFromGitHub P net env s of
               (Inl e, s1) \<Rightarrow> (Done (Inl e), s1)
             | (Inr r, s1) \<Rightarrow>
                 (case spread (reviews r) of
                    Inl e \<Rightarrow> (Done (Inl e), s1)
                  | Inr snapshot \<Rightarrow>
                      (case mutator snapshot of
                         (next, result) \<Rightarrow> (Writing (attempt + 1) next result (sha r), s1))))
          else (Done (Inl (exhausted lastError)), s)
      | Writing attempt next result t \<Rightarrow>
          (case persistReviewsToGitHub P net env next t s of
             (Inr _, s2) \<Rightarrow> (Done (Inr result), s2)
           | (Inl e, s2) \<Rightarrow>
               if is_conflict e \<and> attempt_less attempt retries
               then (Reading attempt (Some e), s2)
               else (Done (Inl e), s2))
      | Done r \<Rightarrow> (Done r, s))"

text \<open>A client left alone for \<open>n\<close> steps.\<close>

fun client_run ::
  "builtins \<Rightarrow> 'w network \<Rightarrow> env \<Rightarrow> (json list \<Rightarrow> json list \<times> 'r) \<Rightarrow> jsnum
     \<Rightarrow> nat \<Rightarrow> 'r client \<times> 'w sys \<Rightarrow> 'r client \<times> 'w sys" where
  "client_run P net env mutator retries 0 ps = ps"
| "client_run P net env mutator retries (Suc n) ps =
     client_run P net env mutator retries n
       (client_step P net env mutator retries (fst ps) (snd ps))"












section \<open>Concrete inputs\<close>

text \<open>
  Values of the built-ins at the inputs of the examples below: \<open>Number\<close> on strings of
  decimal digits, and the codec at the documents the examples read and write (the
  collections \<open>[]\<close>, \<open>[1]\<close>, \<open>[2]\<close>, \<open>[1, 2]\<close> and the one review of \<open>hello_item\<close>; the texts
  \<open>{}\<close> and \<open>x\<close>). \<open>Buffer.from\<close> here knows the encodings \<open>base64\<close> and \<open>utf8\<close> and takes
  a string only. Outside this table the entries are arbitrary; no theorem about all
  inputs uses them.
\<close>

definition digit_value :: "char \<Rightarrow> nat" where
  "digit_value c = length (takeWhile (\<lambda>d. d \<noteq> c) ''0123456789'')"

definition Number_digits :: "string \<Rightarrow> jsnum" where
  "Number_digits s =
     (if s \<noteq> [] \<and> list_all (\<lambda>c. c \<in> set ''0123456789'') s
      then Fin (of_nat (foldl (\<lambda>n c. 10 * n + digit_value c) 0 s)) else NaN)"

definition demo_clock :: clock where
  "demo_clock =
     \<lparr>now = ''1700000000000'', random36 = ''0.4fzyo82mvyr'',
      isoNow = ''2023-11-14T22:13:20.000Z''\<rparr>"

definition hello_item :: json where
  "hello_item =
     JObj [(''id'', JStr ''17000000000004fzyo82mv''),
           (''text'', JStr ''hello''),
           (''createdAt'', JStr ''2023-11-14T22:13:20.000Z''),
           (''avatar'', JStr placeholder_avatar),
           (''stars'', JNum 5)]"

definition hello_json :: string where
  "hello_json =
     ''[\<newline>  {\<newline>    \"id\": \"17000000000004fzyo82mv\",\<newline>    \"text\": \"hello\",\<newline>    \"createdAt\": \"2023-11-14T22:13:20.000Z\",\<newline>    \"avatar\": \"https://api.builder.io/api/v1/image/assets/TEMP/50539832474100cc93c13a30455d91939b986e3b?width=124\",\<newline>    \"stars\": 5\<newline>  }\<newline>]''"

definition hello_base64 :: string where
  "hello_base64 =
     ''WwogIHsKICAgICJpZCI6ICIxNzAwMDAwMDAwMDAwNGZ6eW84Mm12IiwKICAgICJ0ZXh0IjogImhlbGxvIiwKICAgICJjcmVhdGVkQXQiOiAiMjAyMy0xMS0xNFQyMjoxMzoyMC4wMDBaIiwKICAgICJhdmF0YXIiOiAiaHR0cHM6Ly9hcGkuYnVpbGRlci5pby9hcGkvdjEvaW1hZ2UvYXNzZXRzL1RFTVAvNTA1Mzk4MzI0NzQxMDBjYzkzYzEzYTMwNDU1ZDkxOTM5Yjk4NmUzYj93aWR0aD0xMjQiLAogICAgInN0YXJzIjogNQogIH0KXQ==''"

definition demo_parse :: "string \<Rightarrow> string + json" where
  "demo_parse s =
     (if s = ''[]'' then Inr (JArr [])
      else if s = ''[1]'' then Inr (JArr [JNum 1])
      else if s = ''[\<newline>  1\<newline>]'' then Inr (JArr [JNum 1])
      else if s = ''[\<newline>  2\<newline>]'' then Inr (JArr [JNum 2])
      else if s = ''[\<newline>  1,\<newline>  2\<newline>]'' then Inr (JArr [JNum 1, JNum 2])
      else if s = ''{}'' then Inr (JObj [])
      else if s = hello_json then Inr (JArr [hello_item])
      else Inl ''Unexpected token'')"

definition demo_stringify :: "json \<Rightarrow> string" where
  "demo_stringify v =
     (if v = JArr [] then ''[]''
      else if v = JArr [JNum 1] then ''[\<newline>  1\<newline>]''
      else if v = JArr [JNum 2] then ''[\<newline>  2\<newline>]''
      else if v = JArr [JNum 1, JNum 2] then ''[\<newline>  1,\<newline>  2\<newline>]''
      else if v = JArr [hello_item] then hello_json
      else ''null'')"

definition demo_unbase64 :: "string \<Rightarrow> string" where
  "demo_unbase64 s =
     (if s = ''W10='' then ''[]''
      else if s = ''WzFd'' then ''[1]''
      else if s = ''WwogIDEKXQ=='' then ''[\<newline>  1\<newline>]''
      else if s = ''WwogIDIKXQ=='' then ''[\<newline>  2\<newline>]''
      else if s = ''WwogIDEsCiAgMgpd'' then ''[\<newline>  1,\<newline>  2\<newline>]''
      else if s = ''e30='' then ''{}''
      else if s = ''eA=='' then ''x''
      else if s = hello_base64 then hello_json
      else [])"

definition demo_decode :: "json option \<Rightarrow> json \<Rightarrow> string + string" where
  "demo_decode v enc =
     (case v of
        Some (JStr s) \<Rightarrow>
          (case enc of
             JStr e \<Rightarrow>
               if e = ''base64'' then Inr (demo_unbase64 s)
               else if e = ''utf8'' \<or> e = ''utf-8'' then Inr s
               else Inl (''Unknown encoding: '' @ e)
           | _ \<Rightarrow> Inr s)
      | _ \<Rightarrow>
          Inl (''The first argument must be of type string or an instance of Buffer, ''
               @ ''ArrayBuffer, or Array or an Array-like Object.''))"

definition demo_base64 :: "string \<Rightarrow> string" where
  "demo_base64 s =
     (if s = ''[]'' then ''W10=''
      else if s = ''[\<newline>  1\<newline>]'' then ''WwogIDEKXQ==''
      else if s = ''[\<newline>  2\<newline>]'' then ''WwogIDIKXQ==''
      else if s = ''[\<newline>  1,\<newline>  2\<newline>]'' then ''WwogIDEsCiAgMgpd''
      else if s = hello_json then hello_base64
      else ''bnVsbA=='')"

definition demo_builtins :: builtins where
  "demo_builtins =
     \<lparr>Number = Number_digits, JSON_parse = demo_parse, JSON_stringify = demo_stringify,
      Buffer_decode = demo_decode, Buffer_base64 = demo_base64\<rparr>"

text \<open>Three environments: complete, without the token, and with two retry settings.\<close>

definition demo_env :: env where
  "demo_env = map_of [(''GITHUB_TOKEN'', ''t0k3n''), (''GITHUB_OWNER'', ''acme''),
                      (''GITHUB_REPO'', ''site'')]"

definition no_token_env :: env where
  "no_token_env = map_of [(''GITHUB_OWNER'', ''acme''), (''GITHUB_REPO'', ''site'')]"

definition retries_env :: env where
  "retries_env = map_of [(''GITHUB_MAX_RETRIES'', []), (''GITHUB_RETRY_LIMIT'', ''3'')]"

text \<open>Environments with the second setting alone, with the last two, and with a zero.\<close>

definition limit_env :: env where
  "limit_env = map_of [(''GITHUB_RETRY_LIMIT'', ''3'')]"

definition limits_env :: env where
  "limits_env = map_of [(''GITHUB_RETRY_LIMIT'', ''3''), (''MAX_RETRIES'', ''7'')]"

definition zero_env :: env where
  "zero_env = map_of [(''MAX_RETRIES'', ''0'')]"

definition demo_config :: config where
  "demo_config =
     \<lparr>token = ''t0k3n'', owner = ''acme'', repo = ''site'', filePath = ''reviews.json'',
      branch = ''main'', commitMessage = ''chore: update reviews'',
      committerName = None, committerEmail = None\<rparr>"

definition demo_url :: string where
  "demo_url = ''https://api.github.com/repos/acme/site/contents/reviews.json''"

definition demo_headers :: "(string \<times> string) list" where
  "demo_headers = buildHeaders ''t0k3n''"

text \<open>The body \<open>clearReviews\<close> sends under \<open>demo_env\<close>, with the token \<open>t\<close>.\<close>

definition clear_body :: "string option \<Rightarrow> put_body" where
  "clear_body t =
     \<lparr>body_message = ''chore: update reviews'', body_content = ''W10='',
      body_branch = ''main'', body_sha = t, body_committer = None\<rparr>"

text \<open>The body a transform sends under \<open>demo_env\<close>, with the content \<open>c\<close> and the token \<open>t\<close>.\<close>

definition demo_body :: "string \<Rightarrow> string option \<Rightarrow> put_body" where
  "demo_body c t =
     \<lparr>body_message = ''chore: update reviews'', body_content = c,
      body_branch = ''main'', body_sha = t, body_committer = None\<rparr>"

text \<open>
  A transform that appends a number and returns how many items it was given, as the one
  of \<open>addReview\<close> appends a review.
\<close>

definition append_counting :: "rat \<Rightarrow> json list \<Rightarrow> json list \<times> nat" where
  "append_counting q current = (current @ [JNum q], length current)"


section \<open>Lemmas on the configuration\<close>

lemma first_set_nullish:
  "first_set env =
     nullish (env ''GITHUB_MAX_RETRIES'') (nullish (env ''GITHUB_RETRY_LIMIT'') (env ''MAX_RETRIES''))"
  by (cases "env ''GITHUB_MAX_RETRIES''"; cases "env ''GITHUB_RETRY_LIMIT''";
      cases "env ''MAX_RETRIES''")
     (simp_all add: first_set_def recognized_def)

lemma falsy_less: "falsy_num p \<Longrightarrow> p \<noteq> NaN \<Longrightarrow> num_less p (Fin 1)"
  by (cases p) simp_all

lemma getConfig_missing:
  assumes "\<not> truthy_str (env ''GITHUB_TOKEN'') \<or> \<not> truthy_str (env ''GITHUB_OWNER'')
           \<or> \<not> truthy_str (env ''GITHUB_REPO'')"
  shows "\<exists>m. getConfig env = Inl (GitHubConfigError m)"
  using assms by (auto simp: getConfig_def Let_def)

lemma getConfig_error: "getConfig env = Inl e \<Longrightarrow> \<exists>m. e = GitHubConfigError m"
  by (auto simp: getConfig_def Let_def split: if_splits)

section \<open>Lemmas on the loop\<close>

lemma body_attempt_once:
  "(case fetchReviewsFromGitHub P net env s of
           (Inl e, s1) \<Rightarrow> Some (Inl e, s1)
         | (Inr r, s1) \<Rightarrow>
             (case spread (reviews r) of
                Inl e \<Rightarrow> Some (Inl e, s1)
              | Inr snapshot \<Rightarrow>
                  (case mutator snapshot of
                     (next, result) \<Rightarrow>
                       (case persistReviewsToGitHub P net env next (sha r) s1 of
                          (Inr _, s2) \<Rightarrow> Some (Inr result, s2)
                        | (Inl e, s2) \<Rightarrow>
                            if is_conflict e \<and> attempt_less (attempt + 1) retries
                            then f (attempt + 1) (Some e) s2
                            else Some (Inl e, s2)))))
   = (case attempt_once P net env mutator s of
        (Return x, s2) \<Rightarrow> Some (x, s2)
      | (Again e, s2) \<Rightarrow>
          if attempt_less (attempt + 1) retries then f (attempt + 1) (Some e) s2
          else Some (Inl e, s2))"
  by (simp add: attempt_once_def split: prod.splits sum.splits)

lemma loop_unfold:
  "mutate_loop P net env mutator retries attempt lastError s =
     (if attempt_less attempt retries then
        (case attempt_once P net env mutator s of
           (Return x, s2) \<Rightarrow> Some (x, s2)
         | (Again e, s2) \<Rightarrow>
             if attempt_less (attempt + 1) retries
             then mutate_loop P net env mutator retries (attempt + 1) (Some e) s2
             else Some (Inl e, s2))
      else Some (Inl (exhausted lastError), s))"
  by (subst mutate_loop.simps) (simp only: body_attempt_once)

lemma loop_induct [consumes 1, case_names stop ret last again]:
  assumes run: "mutate_loop P net env mutator retries attempt lastError s = Some y"
    and stop: "\<And>attempt lastError s. \<not> attempt_less attempt retries \<Longrightarrow>
                 Q attempt lastError s (Inl (exhausted lastError), s)"
    and ret: "\<And>attempt lastError s x s2. attempt_less attempt retries \<Longrightarrow>
                 attempt_once P net env mutator s = (Return x, s2) \<Longrightarrow>
                 Q attempt lastError s (x, s2)"
    and last: "\<And>attempt lastError s e s2. attempt_less attempt retries \<Longrightarrow>
                 attempt_once P net env mutator s = (Again e, s2) \<Longrightarrow>
                 \<not> attempt_less (attempt + 1) retries \<Longrightarrow>
                 Q attempt lastError s (Inl e, s2)"
    and again: "\<And>attempt lastError s e s2 y. attempt_less attempt retries \<Longrightarrow>
                 attempt_once P net env mutator s = (Again e, s2) \<Longrightarrow>
                 attempt_less (attempt + 1) retries \<Longrightarrow>
                 Q (attempt + 1) (Some e) s2 y \<Longrightarrow>
                 Q attempt lastError s y"
  shows "Q attempt lastError s y"
proof -
  define R where "R = (\<lambda>x y. case x of (((((((P', net'), env'), mutator'), retries'), attempt), lastError), s) \<Rightarrow>
           (P' = P \<and> net' = net \<and> env' = env \<and> mutator' = mutator \<and> retries' = retries \<longrightarrow>
           Q attempt lastError s y))"
  have "R (((((((P, net), env), mutator), retries), attempt), lastError), s) y"
  proof (rule mutate_loop.raw_induct[where Pa = R, OF _ run], goal_cases)
    case (1 loop P1 net1 env1 mutator1 retries1 attempt lastError s y)
    have IH: "loop P net env mutator retries a l t = Some z \<Longrightarrow> Q a l t z" for a l t z
      using 1(1)[of P net env mutator retries a l t z] by (simp add: R_def)
    have "P1 = P \<and> net1 = net \<and> env1 = env \<and> mutator1 = mutator \<and> retries1 = retries \<longrightarrow>
           Q attempt lastError s y"
    proof (intro impI, elim conjE)
    assume eqs: "P1 = P" "net1 = net" "env1 = env" "mutator1 = mutator" "retries1 = retries"
    have body: "(if attempt_less attempt retries then
                  (case attempt_once P net env mutator s of
                     (Return x, s2) \<Rightarrow> Some (x, s2)
                   | (Again e, s2) \<Rightarrow>
                       if attempt_less (attempt + 1) retries
                       then loop P net env mutator retries (attempt + 1) (Some e) s2
                       else Some (Inl e, s2))
                else Some (Inl (exhausted lastError), s)) = Some y"
      using 1(2) unfolding eqs body_attempt_once .
    show "Q attempt lastError s y"
    proof (cases "attempt_less attempt retries")
      case False
      with body have "y = (Inl (exhausted lastError), s)" by simp
      with stop[OF False] show ?thesis by simp
    next
      case al: True
      obtain out s2 where ao: "attempt_once P net env mutator s = (out, s2)" by force
      show ?thesis
      proof (cases out)
        case (Return x)
        with body al ao have "y = (x, s2)" by simp
        with ret[OF al] ao Return show ?thesis by simp
      next
        case (Again e)
        show ?thesis
        proof (cases "attempt_less (attempt + 1) retries")
          case True
          with body al ao Again
          have "loop P net env mutator retries (attempt + 1) (Some e) s2 = Some y" by simp
          then have "Q (attempt + 1) (Some e) s2 y"
            by (rule IH)
          with again[OF al _ True] ao Again show ?thesis by simp
        next
          case False
          with body al ao Again have "y = (Inl e, s2)" by simp
          with last[OF al _ False] ao Again show ?thesis by simp
        qed
      qed
    qed
    qed
    then show ?case by (simp add: R_def)
  qed
  then show ?thesis by (simp add: R_def)
qed

lemma attempt_less_nat [simp]: "attempt_less a (Fin (of_nat k)) = (a < k)"
  by (simp add: attempt_less_def)

lemma loop_induct_run [consumes 1, case_names stop ret last again]:
  assumes run: "mutate_loop P net env mutator retries attempt lastError s = Some y"
    and stop: "\<And>attempt lastError s. \<not> attempt_less attempt retries \<Longrightarrow>
                 Q attempt lastError s (Inl (exhausted lastError), s)"
    and ret: "\<And>attempt lastError s x s2. attempt_less attempt retries \<Longrightarrow>
                 attempt_once P net env mutator s = (Return x, s2) \<Longrightarrow>
                 Q attempt lastError s (x, s2)"
    and last: "\<And>attempt lastError s e s2. attempt_less attempt retries \<Longrightarrow>
                 attempt_once P net env mutator s = (Again e, s2) \<Longrightarrow>
                 \<not> attempt_less (attempt + 1) retries \<Longrightarrow>
                 Q attempt lastError s (Inl e, s2)"
    and again: "\<And>attempt lastError s e s2 y. attempt_less attempt retries \<Longrightarrow>
                 attempt_once P net env mutator s = (Again e, s2) \<Longrightarrow>
                 attempt_less (attempt + 1) retries \<Longrightarrow>
                 mutate_loop P net env mutator retries (attempt + 1) (Some e) s2 = Some y \<Longrightarrow>
                 Q (attempt + 1) (Some e) s2 y \<Longrightarrow>
                 Q attempt lastError s y"
  shows "Q attempt lastError s y"
proof -
  have "mutate_loop P net env mutator retries attempt lastError s = Some y \<and> Q attempt lastError s y"
    using run
  proof (induction rule: loop_induct)
    case (stop attempt lastError s)
    then show ?case using assms(2) by (simp add: loop_unfold)
  next
    case (ret attempt lastError s x s2)
    then show ?case using assms(3) by (simp add: loop_unfold)
  next
    case (last attempt lastError s e s2)
    then show ?case using assms(4) by (simp add: loop_unfold)
  next
    case (again attempt lastError s e s2 y)
    then have "mutate_loop P net env mutator retries attempt lastError s = Some y"
      by (subst loop_unfold) simp
    with again assms(5) show ?case by blast
  qed
  then show ?thesis ..
qed

lemma read_response_error: "read_response P g = Inl e \<Longrightarrow> \<exists>m. e = Error m"
  by (auto simp: read_response_def Let_def split: fetch_result.splits if_splits option.splits sum.splits)

lemma spread_error: "spread v = Inl e \<Longrightarrow> \<exists>m. e = Error m"
  by (cases v) auto

lemma write_response_cases:
  "write_response a = Inl e \<Longrightarrow>
     (conflicted (PutX u h b a) \<and> e = GitHubConflictError ''GitHub file changed during update'')
   \<or> (\<not> conflicted (PutX u h b a) \<and> (\<exists>m. e = Error m))"
  by (cases a) (auto simp: write_response_def split: if_splits option.splits)

lemma write_response_ok: "write_response a = Inr t \<Longrightarrow> \<not> conflicted (PutX u h b a)"
  by (cases a) (auto simp: write_response_def split: if_splits option.splits)

lemma fetch_cases:
  assumes "fetchReviewsFromGitHub P net env s = (r, s1)"
  shows "(\<exists>e. getConfig env = Inl e \<and> r = Inl e \<and> s1 = s)
       \<or> (\<exists>c u h g. getConfig env = Inr c \<and> r = read_response P g
             \<and> calls s1 = calls s @ [GetX u h g])"
proof (cases "getConfig env")
  case (Inl e)
  with assms show ?thesis by (simp add: fetchReviewsFromGitHub_def)
next
  case (Inr c)
  with assms show ?thesis
    by (auto simp: fetchReviewsFromGitHub_def http_get_def Let_def split: prod.splits)
qed

lemma persist_cases:
  assumes "persistReviewsToGitHub P net env rs sh s1 = (r, s2)"
  shows "(\<exists>e. getConfig env = Inl e \<and> r = Inl e \<and> s2 = s1)
       \<or> (\<exists>c u h a. getConfig env = Inr c \<and> r = write_response a
             \<and> calls s2 = calls s1 @ [PutX u h (write_body P c rs sh) a])"
proof (cases "getConfig env")
  case (Inl e)
  with assms show ?thesis by (simp add: persistReviewsToGitHub_def)
next
  case (Inr c)
  with assms show ?thesis
    by (auto simp: persistReviewsToGitHub_def http_put_def Let_def split: prod.splits)
qed

text \<open>What one pass of the loop body adds to the log.\<close>

lemma attempt_once_cases [consumes 1, case_names config unread written]:
  assumes "attempt_once P net env mutator s = (out, s2)"
  obtains
    (config) e where "getConfig env = Inl e" "out = Return (Inl e)" "s2 = s"
  | (unread) c u h g m where "getConfig env = Inr c" "calls s2 = calls s @ [GetX u h g]"
      "out = Return (Inl (Error m))"
  | (written) c u h g u' h' b a where "getConfig env = Inr c"
      "calls s2 = calls s @ [GetX u h g, PutX u' h' b a]"
      "put_derived P env mutator g b"
      "(\<exists>e. write_response a = Inl e \<and> out = (if is_conflict e then Again e else Return (Inl e)))
       \<or> (\<exists>t r. write_response a = Inr t \<and> out = Return (Inr r))"
proof -
  obtain fr s1 where f: "fetchReviewsFromGitHub P net env s = (fr, s1)" by force
  from fetch_cases[OF f] show thesis
  proof (elim disjE exE conjE)
    fix e assume "getConfig env = Inl e" "fr = Inl e" "s1 = s"
    with assms f show thesis by (intro config[of e]) (auto simp: attempt_once_def)
  next
    fix c u h g
    assume c: "getConfig env = Inr c" and fr: "fr = read_response P g"
      and c1: "calls s1 = calls s @ [GetX u h g]"
    show thesis
    proof (cases fr)
      case (Inl e)
      with fr read_response_error obtain m where "e = Error m" by metis
      with assms f Inl c c1 show thesis by (intro unread[of c u h g m]) (auto simp: attempt_once_def)
    next
      case (Inr r)
      show thesis
      proof (cases "spread (reviews r)")
        case (Inl e)
        with spread_error obtain m where "e = Error m" by metis
        with assms f Inl Inr c c1 show thesis
          by (intro unread[of c u h g m]) (auto simp: attempt_once_def)
      next
        case sp: (Inr snapshot)
        obtain nxt result where m: "mutator snapshot = (nxt, result)" by force
        obtain pr s2' where p: "persistReviewsToGitHub P net env nxt (sha r) s1 = (pr, s2')" by force
        from persist_cases[OF p] c obtain u' h' a where
          pr: "write_response a = pr"
          and c2: "calls s2' = calls s1 @ [PutX u' h' (write_body P c nxt (sha r)) a]"
          by auto
        have rr: "read_response P g = Inr r" using fr Inr by simp
        have pd: "put_derived P env mutator g (write_body P c nxt (sha r))"
          using c rr sp m by (simp add: put_derived_def)
        have out: "(out, s2) = (case pr of Inr _ \<Rightarrow> (Return (Inr result), s2')
                      | Inl e \<Rightarrow> (if is_conflict e then Again e else Return (Inl e), s2'))"
          using assms f Inr sp m p by (simp add: attempt_once_def split: sum.splits)
        show thesis
        proof (rule written[of c u h g u' h' "write_body P c nxt (sha r)" a])
          show "getConfig env = Inr c" by (rule c)
          show "calls s2 = calls s @ [GetX u h g, PutX u' h' (write_body P c nxt (sha r)) a]"
            using out c1 c2 by (cases pr) auto
          show "put_derived P env mutator g (write_body P c nxt (sha r))" by (rule pd)
          show "(\<exists>e. write_response a = Inl e \<and> out = (if is_conflict e then Again e else Return (Inl e)))
              \<or> (\<exists>t r. write_response a = Inr t \<and> out = Return (Inr r))"
            using out pr by (cases pr) auto
        qed
      qed
    qed
  qed
qed

lemma loop_terminates:
  assumes "retries \<noteq> PosInf"
  shows "\<exists>y. mutate_loop P net env mutator retries attempt lastError s = Some y"
proof (cases retries)
  case NaN
  then show ?thesis by (simp add: loop_unfold attempt_less_def)
next
  case NegInf
  then show ?thesis by (simp add: loop_unfold attempt_less_def)
next
  case PosInf
  with assms show ?thesis by simp
next
  case (Fin q)
  show ?thesis unfolding Fin
  proof (induction "nat \<lceil>q\<rceil> - attempt" arbitrary: attempt lastError s)
    case 0
    then have "\<not> attempt_less attempt (Fin q)"
      by (simp add: attempt_less_def) linarith
    then show ?case by (simp add: loop_unfold)
  next
    case (Suc n)
    obtain out s2 where ao: "attempt_once P net env mutator s = (out, s2)" by force
    show ?case
    proof (cases "attempt_less attempt (Fin q) \<and> attempt_less (attempt + 1) (Fin q)")
      case True
      have "n = nat \<lceil>q\<rceil> - (attempt + 1)" using Suc(2) by simp
      from Suc(1)[OF this] obtain y where
        "mutate_loop P net env mutator (Fin q) (attempt + 1) (case out of Again e \<Rightarrow> Some e | _ \<Rightarrow> None) s2 = Some y"
        by blast
      with True ao show ?thesis by (subst loop_unfold) (cases out; simp)
    next
      case False
      with ao show ?thesis by (subst loop_unfold) (cases out; auto)
    qed
  qed
qed

section \<open>The log of a call\<close>

lemma failure_surfaced_simps [simp]:
  "failure_surfaced [] res"
  "failure_surfaced [GetX u h g] res"
  "failure_surfaced (xs @ [GetX u h g]) res"
  "failure_surfaced [GetX u h g, PutX u' h' b a] res =
     (case write_response a of Inl e \<Rightarrow> res = Inl e | Inr _ \<Rightarrow> True)"
  "new \<noteq> [] \<Longrightarrow> failure_surfaced (x # new) res = failure_surfaced new res"
  by (auto simp: failure_surfaced_def split: list.splits exchange.splits sum.splits)

lemma log_ok_stop:
  "\<not> attempt_less attempt retries \<Longrightarrow> log_ok P env mutator retries attempt [] res"
  by (simp add: log_ok_def)

lemma log_ok_return:
  assumes "attempt_once P net env mutator s = (Return x, s2)"
  shows "\<exists>new. calls s2 = calls s @ new \<and> log_ok P env mutator retries attempt new x"
  using assms
proof (cases rule: attempt_once_cases)
  case (config e)
  then show ?thesis by (simp add: log_ok_def config_ok_def)
next
  case (unread c u h g m)
  then show ?thesis by (simp add: log_ok_def)
next
  case (written c u h g u' h' b a)
  from written(4) have
    "\<not> conflicted (PutX u' h' b a)
     \<and> (case write_response a of Inl e \<Rightarrow> x = Inl e | Inr _ \<Rightarrow> True)"
    using write_response_cases[of a _ u' h' b] write_response_ok[of a _ u' h' b]
    by (auto split: if_splits)
  with written(2,3) show ?thesis by (simp add: log_ok_def)
qed

lemma log_ok_last:
  assumes "attempt_once P net env mutator s = (Again e, s2)"
    and "\<not> attempt_less (attempt + 1) retries"
  shows "\<exists>new. calls s2 = calls s @ new \<and> log_ok P env mutator retries attempt new (Inl e)"
  using assms(1)
proof (cases rule: attempt_once_cases)
  case (written c u h g u' h' b a)
  from written(4) have "write_response a = Inl e" by (auto split: if_splits)
  with written(2,3) assms(2) show ?thesis by (simp add: log_ok_def)
qed simp_all

lemma log_ok_again:
  assumes "attempt_once P net env mutator s = (Again e, s2)"
    and "attempt_less (attempt + 1) retries"
    and "calls s3 = calls s2 @ new'"
    and "log_ok P env mutator retries (attempt + 1) new' res"
  shows "\<exists>new. calls s3 = calls s @ new \<and> log_ok P env mutator retries attempt new res"
  using assms(1)
proof (cases rule: attempt_once_cases)
  case (written c u h g u' h' b a)
  from written(4) have w: "write_response a = Inl e" "is_conflict e" by (auto split: if_splits)
  then have cf: "conflicted (PutX u' h' b a)"
    using write_response_cases[of a e u' h' b] by auto
  have ok: "config_ok env" using written(1) by (simp add: config_ok_def)
  from assms(2,4) ok have sg: "starts_with_get new'" by (simp add: log_ok_def)
  then obtain y rest where n: "new' = y # rest" "is_get y" by (cases new') auto
  have "calls s3 = calls s @ (GetX u h g # PutX u' h' b a # new')"
    using assms(3) written(2) by simp
  moreover have "log_ok P env mutator retries attempt (GetX u h g # PutX u' h' b a # new') res"
    using assms(4) written(3) cf sg n by (simp add: log_ok_def)
  ultimately show ?thesis by blast
qed simp_all

lemma loop_log:
  assumes "mutate_loop P net env mutator retries attempt lastError s = Some y"
  shows "\<exists>new. calls (snd y) = calls s @ new \<and> log_ok P env mutator retries attempt new (fst y)"
  using assms
proof (induction rule: loop_induct)
  case (stop attempt lastError s)
  then show ?case using log_ok_stop by force
next
  case (ret attempt lastError s x s2)
  then show ?case using log_ok_return by force
next
  case (last attempt lastError s e s2)
  then show ?case using log_ok_last by force
next
  case (again attempt lastError s e s2 y)
  then obtain new' where "calls (snd y) = calls s2 @ new'"
    "log_ok P env mutator retries (attempt + 1) new' (fst y)" by blast
  with again(2,3) show ?case using log_ok_again by blast
qed

lemma held_read:
  assumes "read_response P g = Inr r" and "spread (reviews r) = Inr snapshot"
  shows "held P g = Some (snapshot, sha r)"
proof (cases g)
  case (Rejected m)
  with assms show ?thesis by (simp add: read_response_def)
next
  case (Resolved x)
  show ?thesis
  proof (cases "status x = 404")
    case True
    with assms Resolved show ?thesis by (auto simp: read_response_def held_def)
  next
    case nf: False
    show ?thesis
    proof (cases "ok x")
      case False
      with assms Resolved nf show ?thesis by (simp add: read_response_def)
    next
      case okx: True
      then have st: "\<not> (status x < 200 \<or> 299 < status x)" by (auto simp: ok_def)
      from assms(1) Resolved nf okx obtain payload where pl: "json x = Some payload"
        by (cases "json x") (auto simp: read_response_def)
      have enc: "(case encoding payload of None \<Rightarrow> JStr ''base64'' | Some JNull \<Rightarrow> JStr ''base64''
                   | Some e \<Rightarrow> e) = nullish_json (encoding payload) (JStr ''base64'')"
        by (cases "encoding payload"; simp) (rename_tac e, case_tac e; simp)
      from assms(1) Resolved nf okx pl obtain decoded where
        dec: "Buffer_decode P (content payload) (nullish_json (encoding payload) (JStr ''base64''))
              = Inr decoded"
        by (cases "Buffer_decode P (content payload)
                     (nullish_json (encoding payload) (JStr ''base64''))")
           (auto simp: read_response_def)
      show ?thesis
      proof (cases "trim decoded = []")
        case True
        with assms Resolved nf okx pl dec st enc show ?thesis
          by (auto simp: read_response_def held_def Let_def)
      next
        case ne: False
        from assms(1) Resolved nf okx pl dec ne obtain parsed where
          pa: "JSON_parse P (trim decoded) = Inr parsed"
          and r: "r = \<lparr>reviews = parsed, sha = Some (blob_sha payload)\<rparr>"
          by (cases "JSON_parse P (trim decoded)") (auto simp: read_response_def Let_def)
        from assms(2) r have "spread parsed = Inr snapshot" by simp
        then have "(\<exists>xs. parsed = JArr xs \<and> snapshot = xs)
                 \<or> (\<exists>cs. parsed = JStr cs \<and> snapshot = map (\<lambda>c. JStr [c]) cs)"
          by (cases parsed) auto
        with Resolved nf st pl dec ne pa r enc show ?thesis
          by (auto simp: held_def)
      qed
    qed
  qed
qed

lemma put_derived_carries:
  assumes "put_derived P env mutator g b"
  shows "carries P mutator g b"
proof -
  from assms obtain config r snapshot where
    c: "getConfig env = Inr config" and r: "read_response P g = Inr r"
    and sp: "spread (reviews r) = Inr snapshot"
    and b: "b = write_body P config (fst (mutator snapshot)) (sha r)"
    by (auto simp: put_derived_def split: sum.splits)
  have t: "(if truthy_str (sha r) then sha r else None) = (if sha r = Some [] then None else sha r)"
    by (cases "sha r") auto
  from held_read[OF r sp] b t show ?thesis
    by (simp add: carries_def write_body_def serialize_def)
qed

lemma derived_writes_carry:
  "derived_writes P env mutator new \<Longrightarrow> writes_carry P mutator new"
  by (induction P env mutator new rule: derived_writes.induct)
     (auto intro: put_derived_carries)

lemma attempt_once_result:
  assumes "attempt_once P net env mutator s = (Return (Inr result), s2)"
  shows "\<exists>u h g u' h' b a xs t. calls s2 = calls s @ [GetX u h g, PutX u' h' b a]
           \<and> held P g = Some (xs, t) \<and> result = snd (mutator xs)"
proof -
  obtain fr s1 where f: "fetchReviewsFromGitHub P net env s = (fr, s1)" by force
  with assms obtain r where fr: "fr = Inr r"
    by (cases fr) (auto simp: attempt_once_def)
  from assms f fr obtain snapshot where sp: "spread (reviews r) = Inr snapshot"
    by (cases "spread (reviews r)") (auto simp: attempt_once_def)
  obtain nxt res where m: "mutator snapshot = (nxt, res)" by force
  obtain pr s2' where p: "persistReviewsToGitHub P net env nxt (sha r) s1 = (pr, s2')" by force
  from assms f fr sp m p have out: "result = res" "s2 = s2'" "\<exists>t. pr = Inr t"
    by (cases pr; auto simp: attempt_once_def split: if_splits)+
  from fetch_cases[OF f] fr obtain u h g where
    g: "read_response P g = Inr r" "calls s1 = calls s @ [GetX u h g]"
    by (auto dest: sym)
  from persist_cases[OF p] out(3) obtain u' h' b a where
    "calls s2' = calls s1 @ [PutX u' h' b a]" by auto
  with g(2) out(2) have "calls s2 = calls s @ [GetX u h g, PutX u' h' b a]" by simp
  moreover from held_read[OF g(1) sp] have "held P g = Some (snapshot, sha r)" .
  moreover have "result = snd (mutator snapshot)" using m out(1) by simp
  ultimately show ?thesis by blast
qed

lemma returns_transform_append:
  assumes "returns_transform P mutator new res"
  shows "returns_transform P mutator (pre @ new) res"
proof (cases res)
  case (Inl e)
  then show ?thesis by (simp add: returns_transform_def)
next
  case (Inr result)
  with assms obtain u' h' b a u h g rest where
    "rev new = PutX u' h' b a # GetX u h g # rest"
    by (auto simp: returns_transform_def split: list.splits exchange.splits)
  with assms Inr show ?thesis by (simp add: returns_transform_def)
qed

lemma attempt_once_appends:
  assumes "attempt_once P net env mutator s = (out, s2)"
  shows "\<exists>pre. calls s2 = calls s @ pre"
  using assms by (cases rule: attempt_once_cases) auto

lemma loop_result:
  assumes "mutate_loop P net env mutator retries attempt lastError s = Some y"
  shows "\<exists>new. calls (snd y) = calls s @ new \<and> returns_transform P mutator new (fst y)"
  using assms
proof (induction rule: loop_induct)
  case (stop attempt lastError s)
  then show ?case by (simp add: returns_transform_def)
next
  case (ret attempt lastError s x s2)
  show ?case
  proof (cases x)
    case (Inl e)
    with attempt_once_appends[OF ret(2)] show ?thesis by (auto simp: returns_transform_def)
  next
    case (Inr result)
    with ret(2) attempt_once_result[of P net env mutator s result s2]
    show ?thesis by (auto simp: returns_transform_def)
  qed
next
  case (last attempt lastError s e s2)
  with attempt_once_appends[OF last(2)] show ?case by (auto simp: returns_transform_def)
next
  case (again attempt lastError s e s2 y)
  from again(4) obtain new' where n: "calls (snd y) = calls s2 @ new'"
    "returns_transform P mutator new' (fst y)" by blast
  from attempt_once_appends[OF again(2)] obtain pre where "calls s2 = calls s @ pre" by blast
  with n(1) have "calls (snd y) = calls s @ (pre @ new')" by simp
  with returns_transform_append[OF n(2), of pre] show ?case by blast
qed

lemma loop_counts:
  assumes "mutate_loop P net env mutator (Fin (of_nat k)) attempt lastError s = Some y"
  shows "\<exists>new. calls (snd y) = calls s @ new
           \<and> length (filter is_get new) \<le> k - attempt
           \<and> length (filter is_put new) \<le> k - attempt
           \<and> length (filter conflicted new) \<le> k - attempt
           \<and> (if attempt < k \<and> length (filter conflicted new) = k - attempt
                then fst y = Inl (GitHubConflictError ''GitHub file changed during update'')
                else True)"
  using assms
proof (induction rule: loop_induct)
  case (stop attempt lastError s)
  then show ?case by simp
next
  case (ret attempt lastError s x s2)
  from ret(2) show ?case
  proof (cases rule: attempt_once_cases)
    case (written c u h g u' h' b a)
    from written(4) have "\<not> conflicted (PutX u' h' b a)"
      using write_response_cases[of a _ u' h' b] write_response_ok[of a _ u' h' b]
      by (auto split: if_splits)
    with written(2) ret(1) show ?thesis by simp
  qed (use ret(1) in simp_all)
next
  case (last attempt lastError s e s2)
  from last(2) show ?case
  proof (cases rule: attempt_once_cases)
    case (written c u h g u' h' b a)
    from written(4) have "write_response a = Inl e" "is_conflict e" by (auto split: if_splits)
    then have "conflicted (PutX u' h' b a)"
      "e = GitHubConflictError ''GitHub file changed during update''"
      using write_response_cases[of a e u' h' b] by auto
    with written(2) last(1,3) show ?thesis by simp
  qed simp_all
next
  case (again attempt lastError s e s2 y)
  from again(4) obtain new' where n:
    "calls (snd y) = calls s2 @ new'"
    "length (filter is_get new') \<le> k - (attempt + 1)"
    "length (filter is_put new') \<le> k - (attempt + 1)"
    "length (filter conflicted new') \<le> k - (attempt + 1)"
    "if attempt + 1 < k \<and> length (filter conflicted new') = k - (attempt + 1)
     then fst y = Inl (GitHubConflictError ''GitHub file changed during update'') else True"
    by blast
  from again(2) show ?case
  proof (cases rule: attempt_once_cases)
    case (written c u h g u' h' b a)
    have "calls (snd y) = calls s @ (GetX u h g # PutX u' h' b a # new')"
      using n(1) written(2) by simp
    moreover have "length (filter is_get (GetX u h g # PutX u' h' b a # new')) \<le> k - attempt"
      "length (filter is_put (GetX u h g # PutX u' h' b a # new')) \<le> k - attempt"
      "length (filter conflicted (GetX u h g # PutX u' h' b a # new')) \<le> k - attempt"
      using n(2,3,4) again(3) by auto
    moreover have "if attempt < k
          \<and> length (filter conflicted (GetX u h g # PutX u' h' b a # new')) = k - attempt
       then fst y = Inl (GitHubConflictError ''GitHub file changed during update'') else True"
      using n(4,5) again(3) by (auto split: if_splits)
    ultimately show ?thesis by blast
  qed simp_all
qed

section \<open>Lemmas on the store\<close>

lemma store_fetch_empty:
  assumes "getConfig env = Inr c" and "document w = None"
  shows "\<exists>u h. fetchReviewsFromGitHub P store_net env \<lparr>world = w, calls = cs\<rparr>
           = (Inr \<lparr>reviews = JArr [], sha = None\<rparr>,
              \<lparr>world = w, calls = cs @ [GetX u h not_found]\<rparr>)"
  using assms
  by (simp add: fetchReviewsFromGitHub_def http_get_def store_net_def store_get_def
        read_response_def not_found_def)

lemma store_persist_first:
  assumes "getConfig env = Inr c" and "document w = None"
  shows "\<exists>u h. persistReviewsToGitHub P store_net env rs None \<lparr>world = w, calls = cs\<rparr>
           = (Inr (Some (token_of (version w))),
              \<lparr>world = \<lparr>document = Some (serialize P rs, token_of (version w)),
                         version = Suc (version w)\<rparr>,
               calls = cs @ [PutX u h (write_body P c rs None)
                               (accepted 201 (token_of (version w)))]\<rparr>)"
  using assms
  by (simp add: persistReviewsToGitHub_def http_put_def store_net_def store_put_def accepts_def
        write_response_def write_body_def accepted_def ok_def)









lemma newReview_fields:
  "newReview clk txt avatar stars =
     JObj [(''id'', JStr (now clk @ substring 2 11 (random36 clk))),
           (''text'', JStr (trim txt)),
           (''createdAt'', JStr (isoNow clk)),
           (''avatar'', if avatar = None then JStr placeholder_avatar
                        else or_else avatar (JStr placeholder_avatar)),
           (''stars'', if stars = None \<or> stars = Some (JNum 0) then JNum 5
                       else or_else stars (JNum 5))]"
  by (auto simp: newReview_def or_else_def)

section \<open>Lemmas on concurrent calls\<close>











text \<open>A client that is left alone is the call.\<close>

lemma client_run_done: "client_run P net env mutator retries n (Done r, s) = (Done r, s)"
  by (induction n) (simp_all add: client_step_def)

lemma client_run_add:
  "client_run P net env mutator retries (m + n) ps =
     client_run P net env mutator retries n (client_run P net env mutator retries m ps)"
  by (induction m arbitrary: ps) simp_all

lemma client_two_steps:
  assumes "attempt_less attempt retries"
  shows "client_run P net env mutator retries 2 (Reading attempt lastError, s) =
     (case attempt_once P net env mutator s of
        (Return x, s2) \<Rightarrow> (Done x, s2)
      | (Again e, s2) \<Rightarrow>
          if attempt_less (attempt + 1) retries then (Reading (attempt + 1) (Some e), s2)
          else (Done (Inl e), s2))"
  using assms
  by (simp add: numeral_2_eq_2 client_step_def attempt_once_def split: prod.splits sum.splits)

lemma client_alone:
  assumes "mutate_loop P net env mutator retries attempt lastError s = Some y"
  shows "\<exists>n. client_run P net env mutator retries n (Reading attempt lastError, s)
           = (Done (fst y), snd y)"
  using assms
proof (induction rule: loop_induct)
  case (stop attempt lastError s)
  then have "client_run P net env mutator retries 1 (Reading attempt lastError, s)
      = (Done (Inl (exhausted lastError)), s)" by (simp add: client_step_def)
  then show ?case by (metis fst_conv snd_conv)
next
  case (ret attempt lastError s x s2)
  then show ?case using client_two_steps[of attempt retries P net env mutator lastError s]
    by (intro exI[of _ 2]) simp
next
  case (last attempt lastError s e s2)
  then show ?case using client_two_steps[of attempt retries P net env mutator lastError s]
    by (intro exI[of _ 2]) simp
next
  case (again attempt lastError s e s2 y)
  then obtain n where "client_run P net env mutator retries n (Reading (attempt + 1) (Some e), s2)
      = (Done (fst y), snd y)" by blast
  with again(1,2,3) show ?case
    using client_two_steps[of attempt retries P net env mutator lastError s]
      client_run_add[of P net env mutator retries 2 n "(Reading attempt lastError, s)"]
    by (intro exI[of _ "2 + n"]) simp
qed

lemma client_returns:
  assumes "client_run P net env mutator retries n (Reading attempt lastError, s) = (Done res, s')"
  shows "mutate_loop P net env mutator retries attempt lastError s = Some (res, s')"
  using assms
proof (induction n arbitrary: attempt lastError s rule: less_induct)
  case (less n)
  have n0: "n \<noteq> 0" using less(2) by (cases n) auto
  show ?case
  proof (cases "attempt_less attempt retries")
    case False
    then have "client_run P net env mutator retries 1 (Reading attempt lastError, s)
        = (Done (Inl (exhausted lastError)), s)" by (simp add: client_step_def)
    then have "client_run P net env mutator retries n (Reading attempt lastError, s)
        = (Done (Inl (exhausted lastError)), s)"
      using client_run_add[of P net env mutator retries 1 "n - 1" "(Reading attempt lastError, s)"]
        n0 by (simp add: client_run_done)
    with less(2) False show ?thesis by (simp add: loop_unfold)
  next
    case al: True
    define X where "X = client_run P net env mutator retries 2 (Reading attempt lastError, s)"
    have "\<exists>m<n. client_run P net env mutator retries m X = (Done res, s')"
    proof (cases "n = 1")
      case True
      then have "X = (Done res, s')"
        using less(2) client_run_add[of P net env mutator retries 1 1 "(Reading attempt lastError, s)"]
        by (simp add: X_def client_run_done numeral_2_eq_2 client_step_def)
      with True show ?thesis by (intro exI[of _ 0]) simp
    next
      case False
      with n0 have "n = 2 + (n - 2)" by simp
      then have "client_run P net env mutator retries (n - 2) X = (Done res, s')"
        using less(2) client_run_add[of P net env mutator retries 2 "n - 2"
                "(Reading attempt lastError, s)"]
        by (simp add: X_def)
      with n0 show ?thesis by (intro exI[of _ "n - 2"]) simp
    qed
    then obtain m where m: "m < n" "client_run P net env mutator retries m X = (Done res, s')"
      by blast
    obtain out s2 where ao: "attempt_once P net env mutator s = (out, s2)" by force
    show ?thesis
    proof (cases out)
      case (Return x)
      with ao al have "X = (Done x, s2)" by (simp add: X_def client_two_steps)
      with m(2) have "res = x" "s' = s2" by (simp_all add: client_run_done)
      with ao al Return show ?thesis by (simp add: loop_unfold)
    next
      case (Again e)
      show ?thesis
      proof (cases "attempt_less (attempt + 1) retries")
        case True
        with ao al Again have "X = (Reading (attempt + 1) (Some e), s2)"
          by (simp add: X_def client_two_steps)
        with m less(1)[of m "attempt + 1" "Some e" s2]
        have "mutate_loop P net env mutator retries (attempt + 1) (Some e) s2 = Some (res, s')"
          by simp
        with ao al Again True show ?thesis by (subst loop_unfold) simp
      next
        case False
        with ao al Again have "X = (Done (Inl e), s2)" by (simp add: X_def client_two_steps)
        with m(2) have "res = Inl e" "s' = s2" by (simp_all add: client_run_done)
        with ao al Again False show ?thesis by (simp add: loop_unfold)
      qed
    qed
  qed
qed

lemma client_is_call:
  "(\<exists>n. client_run P net env mutator retries n (Reading 0 None, s) = (Done res, s'))
   = (mutateReviewsWithRetry P net env mutator retries s = Some (res, s'))"
  using client_alone[of P net env mutator retries 0 None s "(res, s')"]
    client_returns[of P net env mutator retries _ 0 None s res s']
  by (auto simp: mutateReviewsWithRetry_def)

section \<open>The examples, evaluated\<close>

lemma demo_getConfig: "getConfig demo_env = Inr demo_config"
  by (simp add: getConfig_def demo_env_def demo_config_def or_default_def)

lemmas demo_defs = demo_builtins_def demo_parse_def demo_stringify_def demo_decode_def
  demo_unbase64_def demo_base64_def
  demo_env_def start_def store_net_def store_get_def store_put_def accepts_def token_of_def
  contended_net_def contended_get_def contended_put_def rival_write_def empty_store_def
  clearReviews_mutator_def demo_url_def hello_json_def hello_base64_def hello_item_def

lemmas engine_defs = mutateReviewsWithRetry_def attempt_once_def fetchReviewsFromGitHub_def
  persistReviewsToGitHub_def getConfig_def buildHeaders_def http_get_def http_put_def
  read_response_def write_response_def write_body_def serialize_def ok_def or_default_def
  trim_def is_ws_def exhausted_def attempt_less_def

lemmas wire_defs = demo_headers_def clear_body_def not_found_def found_def refused_def accepted_def


lemma run_append_rival:
  "mutateReviewsWithRetry demo_builtins contended_net demo_env (append_counting 2) (Fin 5)
     (start (empty_store, [''WzFd'']))
   = Some (Inr 1,
       \<lparr>world = (\<lparr>document = Some (''WwogIDEsCiAgMgpd'', ''vv''), version = 2\<rparr>, []),
        calls = [GetX (demo_url @ ''?ref=main'') demo_headers not_found,
                 PutX demo_url demo_headers (demo_body ''WwogIDIKXQ=='' None) refused,
                 GetX (demo_url @ ''?ref=main'') demo_headers (found ''WzFd'' ''v''),
                 PutX demo_url demo_headers (demo_body ''WwogIDEsCiAgMgpd'' (Some ''v''))
                   (accepted 200 ''vv'')]\<rparr>)"
  by (simp add: loop_unfold demo_defs engine_defs wire_defs demo_body_def append_counting_def)

lemma run_two_rivals:
  "mutateReviewsWithRetry demo_builtins contended_net demo_env clearReviews_mutator (Fin (of_nat 2))
     (start (empty_store, [''WzFd'', ''W10='']))
   = Some (Inl (GitHubConflictError ''GitHub file changed during update''),
       \<lparr>world = (\<lparr>document = Some (''W10='', ''vv''), version = 2\<rparr>, []),
        calls = [GetX (demo_url @ ''?ref=main'') demo_headers not_found,
                 PutX demo_url demo_headers (clear_body None) refused,
                 GetX (demo_url @ ''?ref=main'') demo_headers (found ''WzFd'' ''v''),
                 PutX demo_url demo_headers (clear_body (Some ''v'')) refused]\<rparr>)"
  by (simp add: loop_unfold demo_defs engine_defs wire_defs)

lemma run_broken:
  "mutateReviewsWithRetry demo_builtins broken_net demo_env clearReviews_mutator (Fin 5)
     (start empty_store)
   = Some (Inl (Error ''Failed to persist reviews to GitHub: 500 Server Error''),
       \<lparr>world = empty_store,
        calls = [GetX (demo_url @ ''?ref=main'') demo_headers not_found,
                 PutX demo_url demo_headers (clear_body None)
                   (Resolved \<lparr>status = 500, body_text = ''Server Error'', json = None\<rparr>)]\<rparr>)"
  by (simp add: loop_unfold demo_defs engine_defs wire_defs broken_net_def broken_put_def
        string_of_nat.simps digit_def)

lemma write_broken:
  "persistReviewsToGitHub demo_builtins broken_net demo_env [] None (start empty_store)
   = (Inl (Error ''Failed to persist reviews to GitHub: 500 Server Error''),
       \<lparr>world = empty_store,
        calls = [PutX demo_url demo_headers (clear_body None)
                   (Resolved \<lparr>status = 500, body_text = ''Server Error'', json = None\<rparr>)]\<rparr>)"
  by (simp add: demo_defs engine_defs wire_defs broken_net_def broken_put_def
        string_of_nat.simps digit_def)

lemma read_broken:
  "fetchReviewsFromGitHub demo_builtins broken_net demo_env (start empty_store)
   = (Inr \<lparr>reviews = JArr [], sha = None\<rparr>,
       \<lparr>world = empty_store,
        calls = [GetX (demo_url @ ''?ref=main'') demo_headers not_found]\<rparr>)"
  by (simp add: demo_defs engine_defs wire_defs broken_net_def broken_put_def)

lemma write_after_read_broken:
  "persistReviewsToGitHub demo_builtins broken_net demo_env [] None
     \<lparr>world = empty_store,
      calls = [GetX (demo_url @ ''?ref=main'') demo_headers not_found]\<rparr>
   = (Inl (Error ''Failed to persist reviews to GitHub: 500 Server Error''),
       \<lparr>world = empty_store,
        calls = [GetX (demo_url @ ''?ref=main'') demo_headers not_found,
                 PutX demo_url demo_headers (clear_body None)
                   (Resolved \<lparr>status = 500, body_text = ''Server Error'', json = None\<rparr>)]\<rparr>)"
  by (simp add: demo_defs engine_defs wire_defs broken_net_def broken_put_def
        string_of_nat.simps digit_def)

lemma fetch_not_json:
  "fetchReviewsFromGitHub demo_builtins store_net demo_env
     (start \<lparr>document = Some (''eA=='', ''v''), version = 1\<rparr>)
   = (Inl (Error ''reviews.json in GitHub repository contains invalid JSON: Unexpected token''),
      \<lparr>world = \<lparr>document = Some (''eA=='', ''v''), version = 1\<rparr>,
       calls = [GetX (demo_url @ ''?ref=main'') demo_headers (found ''eA=='' ''v'')]\<rparr>)"
  by (simp add: demo_defs engine_defs wire_defs)

lemma fetch_too_large:
  "fetchReviewsFromGitHub demo_builtins (answering too_large) demo_env (start empty_store)
   = (Inl (Error ''Unknown encoding: none''),
      \<lparr>world = empty_store,
       calls = [GetX (demo_url @ ''?ref=main'') demo_headers too_large]\<rparr>)"
  by (simp add: demo_defs engine_defs wire_defs answering_def too_large_def)


lemma hello_review:
  "newReview demo_clock ''  hello '' None (Some (JNum 0)) = hello_item"
  by (simp add: newReview_def demo_clock_def hello_item_def substring_def trim_def is_ws_def
        or_else_def or_default_def)

section \<open>The claims\<close>

text \<open>
  C1. The call returns unless \<open>retries\<close> is \<open>Infinity\<close>. Whenever it returns: every
  write it has issued comes directly after a read, and carries the collection that the
  transform makes of the collection held by the answer to that read, with that answer's
  token; after every write answered 409 with an attempt left, the next request is a
  read; and a result it returns is the transform's result on the collection held by the
  answer to the last read. So the transform of an attempt is given the collection of
  that attempt's own read, never the snapshot of an earlier attempt.
\<close>

theorem retry_rereads:
  "(retries \<noteq> PosInf \<longrightarrow>
      (\<exists>res s'. mutateReviewsWithRetry P net env mutator retries s = Some (res, s')))
   \<and> (mutateReviewsWithRetry P net env mutator retries s = Some (res, s') \<longrightarrow>
        (\<exists>new. calls s' = calls s @ new \<and> writes_carry P mutator new
           \<and> rereads retries 0 new \<and> returns_transform P mutator new res))"
proof (intro conjI impI)
  assume "retries \<noteq> PosInf"
  then show "\<exists>res s'. mutateReviewsWithRetry P net env mutator retries s = Some (res, s')"
    using loop_terminates[of retries P net env mutator 0 None s]
    by (auto simp: mutateReviewsWithRetry_def)
next
  assume "mutateReviewsWithRetry P net env mutator retries s = Some (res, s')"
  then have run: "mutate_loop P net env mutator retries 0 None s = Some (res, s')"
    by (simp add: mutateReviewsWithRetry_def)
  from loop_log[OF run] obtain new where
    n: "calls s' = calls s @ new" "derived_writes P env mutator new" "rereads retries 0 new"
    by (auto simp: log_ok_def)
  from loop_result[OF run] obtain new' where
    n': "calls s' = calls s @ new'" "returns_transform P mutator new' res" by auto
  from n(1) n'(1) have "new' = new" by simp
  with n n'(2) derived_writes_carry[OF n(2)]
  show "\<exists>new. calls s' = calls s @ new \<and> writes_carry P mutator new
           \<and> rereads retries 0 new \<and> returns_transform P mutator new res"
    by blast
qed

text \<open>
  C1 on the store with one rival writer, with a transform that appends \<open>2\<close> and returns
  the number of items it was given. The first attempt reads no document and its write
  of \<open>[2]\<close> is refused, the rival having written \<open>[1]\<close>; the second attempt reads the
  rival's document and writes \<open>[1, 2]\<close> with its token; the result is 1.
\<close>

theorem retry_rereads_witness:
  "mutateReviewsWithRetry demo_builtins contended_net demo_env (append_counting 2) (Fin 5)
     (start (empty_store, [''WzFd'']))
   = Some (Inr 1,
       \<lparr>world = (\<lparr>document = Some (''WwogIDEsCiAgMgpd'', ''vv''), version = 2\<rparr>, []),
        calls = [GetX (demo_url @ ''?ref=main'') demo_headers not_found,
                 PutX demo_url demo_headers (demo_body ''WwogIDIKXQ=='' None) refused,
                 GetX (demo_url @ ''?ref=main'') demo_headers (found ''WzFd'' ''v''),
                 PutX demo_url demo_headers (demo_body ''WwogIDEsCiAgMgpd'' (Some ''v''))
                   (accepted 200 ''vv'')]\<rparr>)
   \<and> held demo_builtins not_found = Some ([], None)
   \<and> held demo_builtins (found ''WzFd'' ''v'') = Some ([JNum 1], Some ''v'')
   \<and> Buffer_base64 demo_builtins (JSON_stringify demo_builtins (JArr [JNum 2])) = ''WwogIDIKXQ==''
   \<and> Buffer_base64 demo_builtins (JSON_stringify demo_builtins (JArr [JNum 1, JNum 2]))
     = ''WwogIDEsCiAgMgpd''
   \<and> writes_carry demo_builtins (append_counting 2)
        [GetX (demo_url @ ''?ref=main'') demo_headers not_found,
         PutX demo_url demo_headers (demo_body ''WwogIDIKXQ=='' None) refused,
         GetX (demo_url @ ''?ref=main'') demo_headers (found ''WzFd'' ''v''),
         PutX demo_url demo_headers (demo_body ''WwogIDEsCiAgMgpd'' (Some ''v''))
           (accepted 200 ''vv'')]
   \<and> rereads (Fin 5) 0
        [GetX (demo_url @ ''?ref=main'') demo_headers not_found,
         PutX demo_url demo_headers (demo_body ''WwogIDIKXQ=='' None) refused,
         GetX (demo_url @ ''?ref=main'') demo_headers (found ''WzFd'' ''v''),
         PutX demo_url demo_headers (demo_body ''WwogIDEsCiAgMgpd'' (Some ''v''))
           (accepted 200 ''vv'')]
   \<and> returns_transform demo_builtins (append_counting 2)
        [GetX (demo_url @ ''?ref=main'') demo_headers not_found,
         PutX demo_url demo_headers (demo_body ''WwogIDIKXQ=='' None) refused,
         GetX (demo_url @ ''?ref=main'') demo_headers (found ''WzFd'' ''v''),
         PutX demo_url demo_headers (demo_body ''WwogIDEsCiAgMgpd'' (Some ''v''))
           (accepted 200 ''vv'')]
        (Inr 1)"
  using retry_rereads[of "Fin 5" demo_builtins contended_net demo_env "append_counting 2"
          "start (empty_store, [''WzFd''])" "Inr 1"
          "\<lparr>world = (\<lparr>document = Some (''WwogIDEsCiAgMgpd'', ''vv''), version = 2\<rparr>, []),
            calls = [GetX (demo_url @ ''?ref=main'') demo_headers not_found,
                     PutX demo_url demo_headers (demo_body ''WwogIDIKXQ=='' None) refused,
                     GetX (demo_url @ ''?ref=main'') demo_headers (found ''WzFd'' ''v''),
                     PutX demo_url demo_headers (demo_body ''WwogIDEsCiAgMgpd'' (Some ''v''))
                       (accepted 200 ''vv'')]\<rparr>"]
    run_append_rival
  by (simp add: start_def held_def not_found_def found_def refused_def accepted_def
        attempt_less_def demo_builtins_def demo_decode_def demo_unbase64_def demo_parse_def
        demo_stringify_def demo_base64_def hello_json_def hello_base64_def hello_item_def
        trim_def is_ws_def)

text \<open>
  C2. With \<open>retries = k\<close>, a positive integer, the call returns, after at most \<open>k\<close>
  reads and at most \<open>k\<close> writes; and when \<open>k\<close> writes were answered 409, the result is
  the \<open>GitHubConflictError\<close>.
\<close>

theorem bounded_attempts:
  assumes "0 < k"
  shows "\<exists>res s' new.
           mutateReviewsWithRetry P net env mutator (Fin (of_nat k)) s = Some (res, s')
           \<and> calls s' = calls s @ new
           \<and> length (filter is_get new) \<le> k
           \<and> length (filter is_put new) \<le> k
           \<and> (if length (filter conflicted new) = k
                then res = Inl (GitHubConflictError ''GitHub file changed during update'')
                else True)"
proof -
  obtain y where y: "mutate_loop P net env mutator (Fin (of_nat k)) 0 None s = Some y"
    using loop_terminates[of "Fin (of_nat k)"] by blast
  from loop_counts[OF y] assms obtain new where
    "calls (snd y) = calls s @ new" "length (filter is_get new) \<le> k"
    "length (filter is_put new) \<le> k"
    "if length (filter conflicted new) = k
     then fst y = Inl (GitHubConflictError ''GitHub file changed during update'') else True"
    by auto
  with y show ?thesis
    by (intro exI[of _ "fst y"] exI[of _ "snd y"] exI[of _ new])
       (simp add: mutateReviewsWithRetry_def)
qed

text \<open>C2 at \<open>k = 2\<close>, on the store with two rival writers: both writes are refused.\<close>

theorem bounded_attempts_witness:
  "(0::nat) < 2
   \<and> mutateReviewsWithRetry demo_builtins contended_net demo_env clearReviews_mutator
        (Fin (of_nat 2)) (start (empty_store, [''WzFd'', ''W10='']))
     = Some (Inl (GitHubConflictError ''GitHub file changed during update''),
         \<lparr>world = (\<lparr>document = Some (''W10='', ''vv''), version = 2\<rparr>, []),
          calls = [GetX (demo_url @ ''?ref=main'') demo_headers not_found,
                   PutX demo_url demo_headers (clear_body None) refused,
                   GetX (demo_url @ ''?ref=main'') demo_headers (found ''WzFd'' ''v''),
                   PutX demo_url demo_headers (clear_body (Some ''v'')) refused]\<rparr>)
   \<and> length (filter conflicted
        [GetX (demo_url @ ''?ref=main'') demo_headers not_found,
         PutX demo_url demo_headers (clear_body None) refused,
         GetX (demo_url @ ''?ref=main'') demo_headers (found ''WzFd'' ''v''),
         PutX demo_url demo_headers (clear_body (Some ''v'')) refused]) = 2"
  using bounded_attempts[of 2 demo_builtins contended_net demo_env clearReviews_mutator
          "start (empty_store, [''WzFd'', ''W10=''])"] run_two_rivals
  by (simp add: refused_def)



text \<open>
  C4. \<open>persistReviewsToGitHub\<close> fails with a \<open>GitHubConflictError\<close> exactly when its
  request was answered with status 409; any other answer outside 200..299 makes it fail
  with a plain \<open>Error\<close> that carries the status and the body. In the loop, an attempt
  whose write fails with another error than a conflict ends the call with that error in
  the state that write left. In a call that has returned, every write that is followed
  by another request was answered 409, and a write that failed and is the last request
  gives the call its error.
\<close>

theorem write_conflict_iff_409:
  "(persistReviewsToGitHub P net env rs t s = (r, s1) \<longrightarrow>
      ((\<exists>m. r = Inl (GitHubConflictError m))
         = (\<exists>u h b x. calls s1 = calls s @ [PutX u h b (Resolved x)] \<and> status x = 409))
      \<and> (\<forall>u h b x. calls s1 = calls s @ [PutX u h b (Resolved x)] \<and> status x \<noteq> 409
             \<and> \<not> ok x \<longrightarrow>
           r = Inl (Error (''Failed to persist reviews to GitHub: ''
                     @ string_of_nat (status x) @ '' '' @ body_text x))))
   \<and> (attempt_less attempt retries
        \<and> fetchReviewsFromGitHub P net env s = (Inr d, s2)
        \<and> spread (reviews d) = Inr snapshot
        \<and> persistReviewsToGitHub P net env (fst (mutator snapshot)) (sha d) s2 = (Inl e, s3)
        \<and> \<not> is_conflict e \<longrightarrow>
      mutate_loop P net env mutator retries attempt lastError s = Some (Inl e, s3))
   \<and> (mutateReviewsWithRetry P net env mutator retries s = Some (res, s') \<longrightarrow>
       (\<exists>new. calls s' = calls s @ new \<and> only_conflicts_retried new
          \<and> failure_surfaced new res))"
proof (intro conjI impI)
  assume p: "persistReviewsToGitHub P net env rs t s = (r, s1)"
  from persist_cases[OF p]
  show "(\<exists>m. r = Inl (GitHubConflictError m))
         = (\<exists>u h b x. calls s1 = calls s @ [PutX u h b (Resolved x)] \<and> status x = 409)"
  proof (elim disjE exE conjE)
    fix e assume "getConfig env = Inl e" "r = Inl e" "s1 = s"
    then show ?thesis using getConfig_error[of env e] by auto
  next
    fix c u h a
    assume "r = write_response a" "calls s1 = calls s @ [PutX u h (write_body P c rs t) a]"
    then show ?thesis
      by (cases a) (auto simp: write_response_def split: option.splits)
  qed
  from persist_cases[OF p]
  show "\<forall>u h b x. calls s1 = calls s @ [PutX u h b (Resolved x)] \<and> status x \<noteq> 409
             \<and> \<not> ok x \<longrightarrow>
           r = Inl (Error (''Failed to persist reviews to GitHub: ''
                     @ string_of_nat (status x) @ '' '' @ body_text x))"
    by (auto simp: write_response_def)
next
  assume "attempt_less attempt retries
        \<and> fetchReviewsFromGitHub P net env s = (Inr d, s2)
        \<and> spread (reviews d) = Inr snapshot
        \<and> persistReviewsToGitHub P net env (fst (mutator snapshot)) (sha d) s2 = (Inl e, s3)
        \<and> \<not> is_conflict e"
  then show "mutate_loop P net env mutator retries attempt lastError s = Some (Inl e, s3)"
    by (subst mutate_loop.simps) (auto split: prod.splits)
next
  assume "mutateReviewsWithRetry P net env mutator retries s = Some (res, s')"
  then show "\<exists>new. calls s' = calls s @ new \<and> only_conflicts_retried new
          \<and> failure_surfaced new res"
    using loop_log[of P net env mutator retries 0 None s "(res, s')"]
    by (auto simp: mutateReviewsWithRetry_def log_ok_def)
qed

text \<open>C4 on a remote side that answers every write with 500: one read, one write.\<close>

theorem write_conflict_iff_409_witness:
  "persistReviewsToGitHub demo_builtins broken_net demo_env [] None (start empty_store)
   = (Inl (Error ''Failed to persist reviews to GitHub: 500 Server Error''),
       \<lparr>world = empty_store,
        calls = [PutX demo_url demo_headers (clear_body None)
                   (Resolved \<lparr>status = 500, body_text = ''Server Error'', json = None\<rparr>)]\<rparr>)
   \<and> mutateReviewsWithRetry demo_builtins broken_net demo_env clearReviews_mutator (Fin 5)
        (start empty_store)
     = Some (Inl (Error ''Failed to persist reviews to GitHub: 500 Server Error''),
         \<lparr>world = empty_store,
          calls = [GetX (demo_url @ ''?ref=main'') demo_headers not_found,
                   PutX demo_url demo_headers (clear_body None)
                     (Resolved \<lparr>status = 500, body_text = ''Server Error'', json = None\<rparr>)]\<rparr>)
   \<and> only_conflicts_retried
        [GetX (demo_url @ ''?ref=main'') demo_headers not_found,
         PutX demo_url demo_headers (clear_body None)
           (Resolved \<lparr>status = 500, body_text = ''Server Error'', json = None\<rparr>)]
   \<and> failure_surfaced
        [GetX (demo_url @ ''?ref=main'') demo_headers not_found,
         PutX demo_url demo_headers (clear_body None)
           (Resolved \<lparr>status = 500, body_text = ''Server Error'', json = None\<rparr>)]
        (Inl (Error ''Failed to persist reviews to GitHub: 500 Server Error'') :: error + unit)
   \<and> mutate_loop demo_builtins broken_net demo_env clearReviews_mutator (Fin 5) 3
        (Some (GitHubConflictError ''GitHub file changed during update'')) (start empty_store)
     = Some (Inl (Error ''Failed to persist reviews to GitHub: 500 Server Error''),
         \<lparr>world = empty_store,
          calls = [GetX (demo_url @ ''?ref=main'') demo_headers not_found,
                   PutX demo_url demo_headers (clear_body None)
                     (Resolved \<lparr>status = 500, body_text = ''Server Error'', json = None\<rparr>)]\<rparr>)"
  using write_conflict_iff_409[where P = demo_builtins and net = broken_net and env = demo_env
          and rs = "[]" and t = None and s = "start empty_store"
          and r = "Inl (Error ''Failed to persist reviews to GitHub: 500 Server Error'')"
          and ?s1.0 = "\<lparr>world = empty_store,
            calls = [PutX demo_url demo_headers (clear_body None)
                   (Resolved \<lparr>status = 500, body_text = ''Server Error'', json = None\<rparr>)]\<rparr>"
          and attempt = 3 and retries = "Fin 5"
          and d = "\<lparr>reviews = JArr [], sha = None\<rparr>"
          and ?s2.0 = "\<lparr>world = empty_store,
            calls = [GetX (demo_url @ ''?ref=main'') demo_headers not_found]\<rparr>"
          and snapshot = "[]" and mutator = clearReviews_mutator
          and e = "Error ''Failed to persist reviews to GitHub: 500 Server Error''"
          and ?s3.0 = "\<lparr>world = empty_store,
            calls = [GetX (demo_url @ ''?ref=main'') demo_headers not_found,
                   PutX demo_url demo_headers (clear_body None)
                     (Resolved \<lparr>status = 500, body_text = ''Server Error'', json = None\<rparr>)]\<rparr>"
          and lastError = "Some (GitHubConflictError ''GitHub file changed during update'')"
          and res = "Inl (Error ''Failed to persist reviews to GitHub: 500 Server Error'')"
          and s' = "\<lparr>world = empty_store,
            calls = [GetX (demo_url @ ''?ref=main'') demo_headers not_found,
                   PutX demo_url demo_headers (clear_body None)
                     (Resolved \<lparr>status = 500, body_text = ''Server Error'', json = None\<rparr>)]\<rparr>"]
    run_broken write_broken read_broken write_after_read_broken
  by (simp add: start_def attempt_less_def clearReviews_mutator_def)

text \<open>
  C5. A read answered 404 gives the empty collection and no token, and no error,
  whatever the remote side. On the store with no document, the read is answered so and
  leaves the store as it is, and the write that follows with no token is accepted: it
  returns the new token and the store holds the serialized collection.
\<close>

theorem missing_document_baseline:
  "(fetchReviewsFromGitHub P net env s = (r, s1)
      \<and> calls s1 = calls s @ [GetX u h (Resolved x)] \<and> status x = 404
    \<longrightarrow> r = Inr \<lparr>reviews = JArr [], sha = None\<rparr>)
   \<and> (getConfig env = Inr c \<and> document w = None \<longrightarrow>
        (\<exists>u h u' h'.
           fetchReviewsFromGitHub P store_net env \<lparr>world = w, calls = cs\<rparr>
             = (Inr \<lparr>reviews = JArr [], sha = None\<rparr>,
                \<lparr>world = w, calls = cs @ [GetX u h not_found]\<rparr>)
         \<and> persistReviewsToGitHub P store_net env rs None
               \<lparr>world = w, calls = cs @ [GetX u h not_found]\<rparr>
             = (Inr (Some (token_of (version w))),
                \<lparr>world = \<lparr>document = Some (serialize P rs, token_of (version w)),
                           version = Suc (version w)\<rparr>,
                 calls = cs @ [GetX u h not_found,
                               PutX u' h' (write_body P c rs None)
                                 (accepted 201 (token_of (version w)))]\<rparr>)))"
proof (intro conjI impI, elim conjE)
  assume f: "fetchReviewsFromGitHub P net env s = (r, s1)"
    and "calls s1 = calls s @ [GetX u h (Resolved x)]" and "status x = 404"
  with fetch_cases[OF f] show "r = Inr \<lparr>reviews = JArr [], sha = None\<rparr>"
    by (auto simp: read_response_def)
next
  assume a: "getConfig env = Inr c \<and> document w = None"
  from a store_fetch_empty[of env c w P cs] obtain u h where
    f: "fetchReviewsFromGitHub P store_net env \<lparr>world = w, calls = cs\<rparr>
           = (Inr \<lparr>reviews = JArr [], sha = None\<rparr>,
              \<lparr>world = w, calls = cs @ [GetX u h not_found]\<rparr>)" by blast
  from a store_persist_first[of env c w P rs "cs @ [GetX u h not_found]"] obtain u' h' where
    "persistReviewsToGitHub P store_net env rs None
               \<lparr>world = w, calls = cs @ [GetX u h not_found]\<rparr>
             = (Inr (Some (token_of (version w))),
                \<lparr>world = \<lparr>document = Some (serialize P rs, token_of (version w)),
                           version = Suc (version w)\<rparr>,
                 calls = cs @ [GetX u h not_found,
                               PutX u' h' (write_body P c rs None)
                                 (accepted 201 (token_of (version w)))]\<rparr>)" by auto
  with f show "\<exists>u h u' h'.
           fetchReviewsFromGitHub P store_net env \<lparr>world = w, calls = cs\<rparr>
             = (Inr \<lparr>reviews = JArr [], sha = None\<rparr>,
                \<lparr>world = w, calls = cs @ [GetX u h not_found]\<rparr>)
         \<and> persistReviewsToGitHub P store_net env rs None
               \<lparr>world = w, calls = cs @ [GetX u h not_found]\<rparr>
             = (Inr (Some (token_of (version w))),
                \<lparr>world = \<lparr>document = Some (serialize P rs, token_of (version w)),
                           version = Suc (version w)\<rparr>,
                 calls = cs @ [GetX u h not_found,
                               PutX u' h' (write_body P c rs None)
                                 (accepted 201 (token_of (version w)))]\<rparr>)" by blast
qed

text \<open>C5 on the empty store, writing the empty collection.\<close>

theorem missing_document_baseline_witness:
  "getConfig demo_env = Inr demo_config \<and> document empty_store = None
   \<and> fetchReviewsFromGitHub demo_builtins store_net demo_env (start empty_store)
      = (Inr \<lparr>reviews = JArr [], sha = None\<rparr>,
         \<lparr>world = empty_store,
          calls = [GetX (demo_url @ ''?ref=main'') demo_headers not_found]\<rparr>)
   \<and> persistReviewsToGitHub demo_builtins store_net demo_env [] None
        \<lparr>world = empty_store,
         calls = [GetX (demo_url @ ''?ref=main'') demo_headers not_found]\<rparr>
      = (Inr (Some ''v''),
         \<lparr>world = \<lparr>document = Some (''W10='', ''v''), version = 1\<rparr>,
          calls = [GetX (demo_url @ ''?ref=main'') demo_headers not_found,
                   PutX demo_url demo_headers (clear_body None) (accepted 201 ''v'')]\<rparr>)"
proof -
  have f: "fetchReviewsFromGitHub demo_builtins store_net demo_env (start empty_store)
      = (Inr \<lparr>reviews = JArr [], sha = None\<rparr>,
         \<lparr>world = empty_store,
          calls = [GetX (demo_url @ ''?ref=main'') demo_headers not_found]\<rparr>)"
    by (simp add: demo_defs engine_defs wire_defs)
  have p: "persistReviewsToGitHub demo_builtins store_net demo_env [] None
        \<lparr>world = empty_store,
         calls = [GetX (demo_url @ ''?ref=main'') demo_headers not_found]\<rparr>
      = (Inr (Some ''v''),
         \<lparr>world = \<lparr>document = Some (''W10='', ''v''), version = 1\<rparr>,
          calls = [GetX (demo_url @ ''?ref=main'') demo_headers not_found,
                   PutX demo_url demo_headers (clear_body None) (accepted 201 ''v'')]\<rparr>)"
    by (simp add: demo_defs engine_defs wire_defs)
  show ?thesis
    using missing_document_baseline[of demo_builtins store_net demo_env "start empty_store"
            "Inr \<lparr>reviews = JArr [], sha = None\<rparr>"
            "\<lparr>world = empty_store,
              calls = [GetX (demo_url @ ''?ref=main'') demo_headers not_found]\<rparr>"
            "demo_url @ ''?ref=main''" demo_headers
            "\<lparr>status = 404, body_text = ''Not Found'', json = None\<rparr>"
            demo_config empty_store "[]" "[]"] f p
    by (simp add: demo_getConfig empty_store_def)
qed

text \<open>
  C6, as amended. When the token, the owner or the repository is missing (absent or
  empty), \<open>fetchReviewsFromGitHub\<close> and \<open>persistReviewsToGitHub\<close> fail with a
  \<open>GitHubConfigError\<close> in the state they started in: no request was made. So does
  \<open>mutateReviewsWithRetry\<close> when \<open>retries\<close> admits a first attempt; when it admits
  none, the call fails with the generic \<open>Error\<close> of exhaustion instead, the
  configuration unread.
\<close>

theorem config_checked_first:
  assumes "\<not> truthy_str (env ''GITHUB_TOKEN'') \<or> \<not> truthy_str (env ''GITHUB_OWNER'')
           \<or> \<not> truthy_str (env ''GITHUB_REPO'')"
  shows "\<exists>m. fetchReviewsFromGitHub P net env s = (Inl (GitHubConfigError m), s)
           \<and> persistReviewsToGitHub P net env rs t s = (Inl (GitHubConfigError m), s)
           \<and> (if attempt_less 0 retries
                then mutateReviewsWithRetry P net env mutator retries s
                       = Some (Inl (GitHubConfigError m), s)
                else mutateReviewsWithRetry P net env mutator retries s
                       = Some (Inl (Error ''Exceeded retry attempts when updating reviews''), s))"
proof -
  from getConfig_missing[OF assms] obtain m where m: "getConfig env = Inl (GitHubConfigError m)" ..
  have "attempt_once P net env mutator s = (Return (Inl (GitHubConfigError m)), s)"
    using m by (simp add: attempt_once_def fetchReviewsFromGitHub_def)
  then show ?thesis
    using m
    by (intro exI[of _ m])
       (simp add: fetchReviewsFromGitHub_def persistReviewsToGitHub_def mutateReviewsWithRetry_def
          loop_unfold exhausted_def)
qed

text \<open>C6 (amended) with the token missing and five attempts allowed.\<close>

theorem config_checked_first_witness:
  "fetchReviewsFromGitHub demo_builtins store_net no_token_env (start empty_store)
     = (Inl (GitHubConfigError ''Missing GITHUB_TOKEN environment variable''), start empty_store)
   \<and> persistReviewsToGitHub demo_builtins store_net no_token_env [] None (start empty_store)
     = (Inl (GitHubConfigError ''Missing GITHUB_TOKEN environment variable''), start empty_store)
   \<and> mutateReviewsWithRetry demo_builtins store_net no_token_env clearReviews_mutator (Fin 5)
        (start empty_store)
     = Some (Inl (GitHubConfigError ''Missing GITHUB_TOKEN environment variable''),
          start empty_store)
   \<and> calls (start empty_store) = []"
  using config_checked_first[of no_token_env demo_builtins store_net "start empty_store" "[]" None
          "Fin 5" clearReviews_mutator]
  by (auto simp: no_token_env_def attempt_less_def start_def fetchReviewsFromGitHub_def getConfig_def
        or_default_def)

text \<open>
  C6 as stated fails: with the token missing and \<open>retries = 0\<close>,
  \<open>mutateReviewsWithRetry\<close> fails with the generic \<open>Error\<close>, not with a
  \<open>GitHubConfigError\<close>.
\<close>

theorem config_not_checked_counterexample:
  "getConfig no_token_env = Inl (GitHubConfigError ''Missing GITHUB_TOKEN environment variable'')
   \<and> mutateReviewsWithRetry demo_builtins store_net no_token_env clearReviews_mutator (Fin 0)
        (start empty_store)
     = Some (Inl (Error ''Exceeded retry attempts when updating reviews''), start empty_store)"
  by (simp add: no_token_env_def getConfig_def or_default_def mutateReviewsWithRetry_def
        loop_unfold attempt_less_def exhausted_def)

text \<open>
  C7, as amended. On a successful answer, \<open>fetchReviewsFromGitHub\<close> decodes the content
  and trims the text. When the text is not empty and \<open>JSON.parse\<close> throws, the call
  fails with the \<open>Error\<close> that says so; when \<open>JSON.parse\<close> returns a value, that value is
  returned as the collection, whatever it is; when the text is empty, the collection is
  empty. When the content cannot be decoded (\<open>Buffer.from\<close> throws), the call fails with
  the error thrown and returns no collection.
\<close>

theorem fetch_rejects_invalid_json:
  assumes "fetchReviewsFromGitHub P net env s = (r, s1)"
    and "calls s1 = calls s @ [GetX u h (Resolved x)]"
    and "ok x" and "json x = Some payload"
    and "d = Buffer_decode P (content payload) (nullish_json (encoding payload) (JStr ''base64''))"
  shows "(d = Inr decoded \<and> trim decoded \<noteq> [] \<and> JSON_parse P (trim decoded) = Inl m \<longrightarrow>
            r = Inl (Error (''reviews.json in GitHub repository contains invalid JSON: '' @ m)))
       \<and> (d = Inr decoded \<and> trim decoded \<noteq> [] \<and> JSON_parse P (trim decoded) = Inr v \<longrightarrow>
            r = Inr \<lparr>reviews = v, sha = Some (blob_sha payload)\<rparr>)
       \<and> (d = Inr decoded \<and> trim decoded = [] \<longrightarrow>
            r = Inr \<lparr>reviews = JArr [], sha = Some (blob_sha payload)\<rparr>)
       \<and> (d = Inl m' \<longrightarrow> r = Inl (Error m'))"
proof -
  from fetch_cases[OF assms(1)] assms(2)
  have "r = read_response P (Resolved x)" by auto
  moreover have "status x \<noteq> 404" using assms(3) by (simp add: ok_def)
  ultimately show ?thesis using assms(3,4,5) by (auto simp: read_response_def Let_def)
qed

text \<open>
  C7 (amended) on a document whose content is the text \<open>x\<close>, and on the answer GitHub
  gives for a file above 1 MB.
\<close>

theorem fetch_rejects_invalid_json_witness:
  "fetchReviewsFromGitHub demo_builtins store_net demo_env
     (start \<lparr>document = Some (''eA=='', ''v''), version = 1\<rparr>)
   = (Inl (Error ''reviews.json in GitHub repository contains invalid JSON: Unexpected token''),
      \<lparr>world = \<lparr>document = Some (''eA=='', ''v''), version = 1\<rparr>,
       calls = [GetX (demo_url @ ''?ref=main'') demo_headers (found ''eA=='' ''v'')]\<rparr>)
   \<and> Buffer_decode demo_builtins (Some (JStr ''eA=='')) (JStr ''base64'') = Inr ''x''
   \<and> JSON_parse demo_builtins ''x'' = Inl ''Unexpected token''
   \<and> fetchReviewsFromGitHub demo_builtins (answering too_large) demo_env (start empty_store)
     = (Inl (Error ''Unknown encoding: none''),
        \<lparr>world = empty_store,
         calls = [GetX (demo_url @ ''?ref=main'') demo_headers too_large]\<rparr>)
   \<and> Buffer_decode demo_builtins (Some (JStr [])) (JStr ''none'') = Inl ''Unknown encoding: none''"
  using fetch_rejects_invalid_json[OF fetch_not_json, where u = "demo_url @ ''?ref=main''"
          and h = demo_headers
          and x = "\<lparr>status = 200, body_text = [],
            json = Some \<lparr>content = Some (JStr ''eA==''), encoding = Some (JStr ''base64''),
                          blob_sha = ''v''\<rparr>\<rparr>"
          and payload = "\<lparr>content = Some (JStr ''eA==''), encoding = Some (JStr ''base64''),
                          blob_sha = ''v''\<rparr>"
          and d = "Inr ''x''" and decoded = "''x''" and m = "''Unexpected token''"]
    fetch_rejects_invalid_json[OF fetch_too_large, where u = "demo_url @ ''?ref=main''"
          and h = demo_headers
          and x = "\<lparr>status = 200, body_text = [],
            json = Some \<lparr>content = Some (JStr []), encoding = Some (JStr ''none''),
                          blob_sha = ''v''\<rparr>\<rparr>"
          and payload = "\<lparr>content = Some (JStr []), encoding = Some (JStr ''none''),
                          blob_sha = ''v''\<rparr>"
          and d = "Inl ''Unknown encoding: none''" and m' = "''Unknown encoding: none''"]
    fetch_not_json fetch_too_large
  by (simp add: start_def found_def too_large_def ok_def demo_builtins_def demo_decode_def
        demo_unbase64_def demo_parse_def hello_json_def hello_base64_def trim_def is_ws_def)

text \<open>
  C7 as stated fails: a document whose content is the text \<open>{}\<close> is not a serialized
  collection, and \<open>fetchReviewsFromGitHub\<close> returns the object as the collection; the
  engine's own \<open>[...reviews]\<close> cannot iterate it. And a document whose content is empty,
  which is no JSON text, is read as the empty collection.
\<close>

theorem fetch_returns_non_collection_counterexample:
  "fetchReviewsFromGitHub demo_builtins store_net demo_env
     (start \<lparr>document = Some (''e30='', ''v''), version = 1\<rparr>)
   = (Inr \<lparr>reviews = JObj [], sha = Some ''v''\<rparr>,
      \<lparr>world = \<lparr>document = Some (''e30='', ''v''), version = 1\<rparr>,
       calls = [GetX (demo_url @ ''?ref=main'') demo_headers (found ''e30='' ''v'')]\<rparr>)
   \<and> Buffer_decode demo_builtins (Some (JStr ''e30='')) (JStr ''base64'') = Inr ''{}''
   \<and> JSON_parse demo_builtins ''{}'' = Inr (JObj [])
   \<and> spread (JObj []) = Inl (Error ''reviews is not iterable'')
   \<and> fetchReviewsFromGitHub demo_builtins store_net demo_env
        (start \<lparr>document = Some ([], ''v''), version = 1\<rparr>)
     = (Inr \<lparr>reviews = JArr [], sha = Some ''v''\<rparr>,
        \<lparr>world = \<lparr>document = Some ([], ''v''), version = 1\<rparr>,
         calls = [GetX (demo_url @ ''?ref=main'') demo_headers (found [] ''v'')]\<rparr>)
   \<and> JSON_parse demo_builtins [] = Inl ''Unexpected token''"
  by (simp add: demo_defs engine_defs wire_defs)

text \<open>
  C8, as amended. \<open>getMaxRetries\<close> takes the first of \<open>GITHUB_MAX_RETRIES\<close>,
  \<open>GITHUB_RETRY_LIMIT\<close>, \<open>MAX_RETRIES\<close> that is set, also when its value is the empty
  string: two environments with the same first set value have the same result. When none
  is set, or the one taken is empty, is not a number, or is zero or negative, the result
  is the default 5, which is neither 0 nor unbounded. A value taken that is a finite
  number of at least 1 is the result. In every environment the result is a number and
  is not below 1.
\<close>

theorem getMaxRetries_first_set:
  "(first_set env = first_set env' \<longrightarrow> getMaxRetries P env = getMaxRetries P env')
   \<and> (first_set env = None \<or> first_set env = Some []
        \<or> (first_set env = Some raw \<and> (Number P raw = NaN \<or> not_positive (Number P raw))) \<longrightarrow>
        getMaxRetries P env = Fin 5 \<and> getMaxRetries P env \<noteq> Fin 0
        \<and> getMaxRetries P env \<noteq> PosInf)
   \<and> (first_set env = Some raw \<and> raw \<noteq> [] \<and> Number P raw = Fin q \<and> 1 \<le> q \<longrightarrow>
        getMaxRetries P env = Fin q)
   \<and> getMaxRetries P env \<noteq> NaN \<and> \<not> num_less (getMaxRetries P env) (Fin 1)"
proof -
  have g: "getMaxRetries P e =
     (case first_set e of
        None \<Rightarrow> Fin 5
      | Some raw \<Rightarrow>
          if raw = [] \<or> Number P raw = NaN \<or> num_less (Number P raw) (Fin 1) then Fin 5
          else Number P raw)" for e
    using falsy_less[of "Number P (the (first_set e))"]
    by (cases "first_set e")
       (auto simp: getMaxRetries_def first_set_nullish[symmetric] DEFAULT_MAX_RETRIES_def Let_def)
  have np: "not_positive p \<Longrightarrow> num_less p (Fin 1)" for p
    by (cases p) simp_all
  have a: "first_set env = first_set env' \<longrightarrow> getMaxRetries P env = getMaxRetries P env'"
    by (simp add: g)
  have b: "first_set env = None \<or> first_set env = Some []
        \<or> (first_set env = Some raw \<and> (Number P raw = NaN \<or> not_positive (Number P raw))) \<longrightarrow>
        getMaxRetries P env = Fin 5 \<and> getMaxRetries P env \<noteq> Fin 0
        \<and> getMaxRetries P env \<noteq> PosInf"
    using np[of "Number P raw"] by (auto simp: g)
  have c: "first_set env = Some raw \<and> raw \<noteq> [] \<and> Number P raw = Fin q \<and> 1 \<le> q \<longrightarrow>
        getMaxRetries P env = Fin q"
    by (auto simp: g)
  have d: "getMaxRetries P env \<noteq> NaN \<and> \<not> num_less (getMaxRetries P env) (Fin 1)"
    by (cases "first_set env") (auto simp: g)
  from a b c d show ?thesis by blast
qed

text \<open>
  C8 (amended) on four environments: the first setting empty and the second \<open>3\<close>; the
  second \<open>3\<close>, alone and before a third; the third \<open>0\<close>.
\<close>

theorem getMaxRetries_first_set_witness:
  "first_set retries_env = Some [] \<and> getMaxRetries demo_builtins retries_env = Fin 5
   \<and> first_set limit_env = Some ''3'' \<and> first_set limits_env = Some ''3''
   \<and> Number demo_builtins ''3'' = Fin 3
   \<and> getMaxRetries demo_builtins limit_env = Fin 3
   \<and> getMaxRetries demo_builtins limits_env = Fin 3
   \<and> first_set zero_env = Some ''0'' \<and> Number demo_builtins ''0'' = Fin 0
   \<and> getMaxRetries demo_builtins zero_env = Fin 5"
  using getMaxRetries_first_set[of retries_env retries_env demo_builtins "[]" 0]
    getMaxRetries_first_set[of limits_env limit_env demo_builtins "''3''" 3]
    getMaxRetries_first_set[of limit_env limit_env demo_builtins "''3''" 3]
    getMaxRetries_first_set[of zero_env zero_env demo_builtins "''0''" 0]
  by (simp add: first_set_def recognized_def retries_env_def limit_env_def limits_env_def
        zero_env_def demo_builtins_def Number_digits_def digit_value_def)

text \<open>
  C8 as stated fails: with \<open>GITHUB_MAX_RETRIES\<close> set to the empty string and
  \<open>GITHUB_RETRY_LIMIT\<close> set to \<open>3\<close>, the first non-empty setting is \<open>3\<close>, a positive
  number, and the result is 5.
\<close>

theorem getMaxRetries_first_non_empty_counterexample:
  "first_non_empty retries_env = Some ''3'' \<and> Number demo_builtins ''3'' = Fin 3
   \<and> getMaxRetries demo_builtins retries_env = Fin 5"
  by (simp add: first_non_empty_def recognized_def retries_env_def demo_builtins_def
        Number_digits_def digit_value_def getMaxRetries_def DEFAULT_MAX_RETRIES_def)

text \<open>
  C9. On the store with no document and with a complete configuration, the call with
  the transform of \<open>addReview\<close> and five attempts returns the new review after one read
  and one write, and the store then holds the serialized collection of that one review.
  The review's text is the trimmed text; its rating is 5 when none or zero was
  supplied; its avatar is the placeholder when none was supplied.
\<close>

theorem append_on_empty_store:
  assumes "getConfig env = Inr c" and "document w = None"
  shows "(\<exists>u h u' h'.
           mutateReviewsWithRetry P store_net env (addReview_mutator clk txt avatar stars) (Fin 5)
             \<lparr>world = w, calls = cs\<rparr>
           = Some (Inr (newReview clk txt avatar stars),
               \<lparr>world = \<lparr>document = Some (serialize P [newReview clk txt avatar stars],
                                           token_of (version w)),
                          version = Suc (version w)\<rparr>,
                calls = cs @ [GetX u h not_found,
                              PutX u' h' (write_body P c [newReview clk txt avatar stars] None)
                                (accepted 201 (token_of (version w)))]\<rparr>))
       \<and> newReview clk txt avatar stars =
           JObj [(''id'', JStr (now clk @ substring 2 11 (random36 clk))),
                 (''text'', JStr (trim txt)),
                 (''createdAt'', JStr (isoNow clk)),
                 (''avatar'', if avatar = None then JStr placeholder_avatar
                              else or_else avatar (JStr placeholder_avatar)),
                 (''stars'', if stars = None \<or> stars = Some (JNum 0) then JNum 5
                             else or_else stars (JNum 5))]"
proof -
  let ?item = "newReview clk txt avatar stars"
  from store_fetch_empty[OF assms, of P cs] obtain u h where
    f: "fetchReviewsFromGitHub P store_net env \<lparr>world = w, calls = cs\<rparr>
           = (Inr \<lparr>reviews = JArr [], sha = None\<rparr>,
              \<lparr>world = w, calls = cs @ [GetX u h not_found]\<rparr>)" by blast
  from store_persist_first[OF assms, of P "[?item]" "cs @ [GetX u h not_found]"] obtain u' h' where
    p: "persistReviewsToGitHub P store_net env [?item] None
           \<lparr>world = w, calls = cs @ [GetX u h not_found]\<rparr>
         = (Inr (Some (token_of (version w))),
            \<lparr>world = \<lparr>document = Some (serialize P [?item], token_of (version w)),
                       version = Suc (version w)\<rparr>,
             calls = cs @ [GetX u h not_found,
                           PutX u' h' (write_body P c [?item] None)
                             (accepted 201 (token_of (version w)))]\<rparr>)" by auto
  have "mutateReviewsWithRetry P store_net env (addReview_mutator clk txt avatar stars) (Fin 5)
             \<lparr>world = w, calls = cs\<rparr>
           = Some (Inr ?item,
               \<lparr>world = \<lparr>document = Some (serialize P [?item], token_of (version w)),
                          version = Suc (version w)\<rparr>,
                calls = cs @ [GetX u h not_found,
                              PutX u' h' (write_body P c [?item] None)
                                (accepted 201 (token_of (version w)))]\<rparr>)"
    using f p
    by (simp add: mutateReviewsWithRetry_def loop_unfold attempt_once_def addReview_mutator_def
          attempt_less_def)
  then show ?thesis using newReview_fields by blast
qed

text \<open>C9 for the text \<open>hello\<close> between blanks, no avatar and the rating 0.\<close>

theorem append_on_empty_store_witness:
  "getConfig demo_env = Inr demo_config \<and> document empty_store = None
   \<and> mutateReviewsWithRetry demo_builtins store_net demo_env
        (addReview_mutator demo_clock ''  hello '' None (Some (JNum 0))) (Fin 5) (start empty_store)
      = Some (Inr hello_item,
          \<lparr>world = \<lparr>document = Some (hello_base64, ''v''), version = 1\<rparr>,
           calls = [GetX (demo_url @ ''?ref=main'') demo_headers not_found,
                    PutX demo_url demo_headers
                      \<lparr>body_message = ''chore: update reviews'', body_content = hello_base64,
                       body_branch = ''main'', body_sha = None, body_committer = None\<rparr>
                      (accepted 201 ''v'')]\<rparr>)
   \<and> hello_item =
        JObj [(''id'', JStr ''17000000000004fzyo82mv''),
              (''text'', JStr ''hello''),
              (''createdAt'', JStr ''2023-11-14T22:13:20.000Z''),
              (''avatar'', JStr placeholder_avatar),
              (''stars'', JNum 5)]"
proof -
  have run: "mutateReviewsWithRetry demo_builtins store_net demo_env
        (addReview_mutator demo_clock ''  hello '' None (Some (JNum 0))) (Fin 5) (start empty_store)
      = Some (Inr hello_item,
          \<lparr>world = \<lparr>document = Some (hello_base64, ''v''), version = 1\<rparr>,
           calls = [GetX (demo_url @ ''?ref=main'') demo_headers not_found,
                    PutX demo_url demo_headers
                      \<lparr>body_message = ''chore: update reviews'', body_content = hello_base64,
                       body_branch = ''main'', body_sha = None, body_committer = None\<rparr>
                      (accepted 201 ''v'')]\<rparr>)"
    by (simp add: loop_unfold addReview_mutator_def hello_review demo_builtins_def demo_parse_def
          demo_stringify_def demo_decode_def demo_base64_def demo_env_def store_net_def
          store_get_def store_put_def accepts_def token_of_def empty_store_def demo_url_def
          hello_item_def hello_json_def hello_base64_def engine_defs wire_defs start_def)
  show ?thesis
    using append_on_empty_store[OF demo_getConfig, of empty_store demo_builtins demo_clock
            "''  hello ''" None "Some (JNum 0)" "[]"] run
    by (simp add: demo_getConfig empty_store_def hello_item_def)
qed

text \<open>
  C10. With a \<open>retries\<close> argument that is zero or negative the loop body never runs:
  the call fails with the generic \<open>Error\<close> of exhaustion, whatever the transform, and
  the state is the one it started in, so nothing was fetched or written.
\<close>

theorem mutate_no_attempt:
  "q \<le> 0 \<Longrightarrow>
   mutateReviewsWithRetry P net env mutator (Fin q) s =
     Some (Inl (Error ''Exceeded retry attempts when updating reviews''), s)
   \<and> mutateReviewsWithRetry P net env mutator NegInf s =
     Some (Inl (Error ''Exceeded retry attempts when updating reviews''), s)"
  by (simp add: mutateReviewsWithRetry_def mutate_loop.simps attempt_less_def exhausted_def)

text \<open>C10 at \<open>retries = -1\<close>, on the empty store.\<close>

theorem mutate_no_attempt_witness:
  "mutateReviewsWithRetry demo_builtins store_net demo_env clearReviews_mutator (Fin (- 1))
     (start empty_store) =
     Some (Inl (Error ''Exceeded retry attempts when updating reviews''), start empty_store)
   \<and> calls (start empty_store) = []"
  using mutate_no_attempt[of "- 1" demo_builtins store_net demo_env clearReviews_mutator
          "start empty_store"]
  by (simp add: start_def)

end
